theory Spec2Isabelle
  imports Complex_Main
begin

section \<open>Python strings\<close>

text \<open>
  A Python \<open>str\<close> is modelled as a \<open>string\<close> whose characters are the code points
  below 256. \<open>str.lower\<close> changes, in that range, exactly the ASCII capitals and the
  Latin-1 capitals U+00C0..U+00DE other than the multiplication sign U+00D7.
\<close>

definition lower_char :: "char \<Rightarrow> char" where
  "lower_char c =
     (let n = (of_char c :: nat)
      in if (65 \<le> n \<and> n \<le> 90) \<or> (192 \<le> n \<and> n \<le> 214) \<or> (216 \<le> n \<and> n \<le> 222)
         then char_of (n + 32) else c)"

definition lower :: "string \<Rightarrow> string" where
  "lower s = map lower_char s"

text \<open>\<open>p in s\<close> on strings: \<open>p\<close> occurs in \<open>s\<close> as a contiguous block.\<close>

fun startswith :: "string \<Rightarrow> string \<Rightarrow> bool" where
  "startswith s [] = True"
| "startswith [] (p # ps) = False"
| "startswith (c # cs) (p # ps) = (c = p \<and> startswith cs ps)"

fun contains :: "string \<Rightarrow> string \<Rightarrow> bool" where
  "contains [] p = (p = [])"
| "contains (c # cs) p = (startswith (c # cs) p \<or> contains cs p)"

text \<open>\<open>any(p in s for p in patterns)\<close>\<close>

primrec any_in :: "string list \<Rightarrow> string \<Rightarrow> bool" where
  "any_in [] s = False"
| "any_in (p # ps) s = (contains s p \<or> any_in ps s)"

text \<open>The character classes of the pattern \<open>[^a-zA-Z\s]\<close>; \<open>\s\<close> on a \<open>str\<close> is
  \<open>str.isspace\<close>, which below 256 holds of 9..13, 28..32, 133 and 160.\<close>

definition is_letter :: "char \<Rightarrow> bool" where
  "is_letter c = (let n = (of_char c :: nat) in (65 \<le> n \<and> n \<le> 90) \<or> (97 \<le> n \<and> n \<le> 122))"

definition is_space :: "char \<Rightarrow> bool" where
  "is_space c = (let n = (of_char c :: nat) in (9 \<le> n \<and> n \<le> 13) \<or> (28 \<le> n \<and> n \<le> 32) \<or> n = 133 \<or> n = 160)"

text \<open>\<open>s.replace(a, b)\<close> for one-character \<open>a\<close> and \<open>b\<close>.\<close>

definition replace_char :: "char \<Rightarrow> char \<Rightarrow> string \<Rightarrow> string" where
  "replace_char a b s = map (\<lambda>c. if c = a then b else c) s"

section \<open>LeadEnricher: LinkedIn URL\<close>

definition clean_name :: "string \<Rightarrow> string" where
  "clean_name name = filter (\<lambda>c. is_letter c \<or> is_space c) name"

definition generate_linkedin_url :: "string \<Rightarrow> string" where
  "generate_linkedin_url name =
     (let url_name = replace_char (CHR '' '') (CHR ''-'') (lower (clean_name name))
      in ''https://linkedin.com/in/'' @ url_name)"

text \<open>The slug as the specification words it: every run of whitespace becomes one hyphen.
  The flag says that the previous character was whitespace.\<close>

fun hyphenate_runs :: "bool \<Rightarrow> string \<Rightarrow> string" where
  "hyphenate_runs b [] = []"
| "hyphenate_runs b (c # cs) =
     (if is_space c then (if b then hyphenate_runs True cs else CHR ''-'' # hyphenate_runs True cs)
      else c # hyphenate_runs False cs)"

definition spec_slug :: "string \<Rightarrow> string" where
  "spec_slug name = hyphenate_runs False (lower (clean_name name))"

text \<open>Every whitespace character is a space standing alone.\<close>

fun single_spaced :: "bool \<Rightarrow> string \<Rightarrow> bool" where
  "single_spaced b [] = True"
| "single_spaced b (c # cs) =
     (if is_space c then \<not> b \<and> c = CHR '' '' \<and> single_spaced True cs
      else single_spaced False cs)"

section \<open>The random module\<close>

text \<open>
  The ambient generator is made explicit: every call receives the value that
  \<open>random()\<close> (a real in \<open>[0, 1)\<close>) or \<open>_randbelow\<close> (a natural number) hands it.
  Floating-point numbers are idealised as reals.
\<close>

text \<open>\<open>random.uniform(a, b)\<close> is \<open>a + (b - a) * random()\<close>.\<close>

definition uniform :: "real \<Rightarrow> real \<Rightarrow> real \<Rightarrow> real" where
  "uniform a b u = a + (b - a) * u"

text \<open>\<open>random.choice(seq)\<close> is \<open>seq[_randbelow(len(seq))]\<close>; \<open>random.randint(a, b)\<close> is
  \<open>a + _randbelow(b - a + 1)\<close>. The raw draw \<open>k\<close> is reduced below the bound. Every
  caller passes a non-empty literal list, so the \<open>IndexError\<close> of an empty sequence cannot
  occur.\<close>

definition choice :: "'a list \<Rightarrow> nat \<Rightarrow> 'a" where
  "choice seq k = seq ! (k mod length seq)"

definition randint :: "nat \<Rightarrow> nat \<Rightarrow> nat \<Rightarrow> nat" where
  "randint a b k = a + k mod (b - a + 1)"

text \<open>\<open>random.choices(population, weights)[0]\<close>: the running sums of the weights are
  searched with \<open>bisect_right\<close> for \<open>random() * total\<close>, between 0 and \<open>len(population) - 1\<close>.
  Both callers pass five items with five positive literal weights, so the \<open>ValueError\<close>
  checks of \<open>choices\<close> cannot fire and every index read is in range.\<close>

fun accumulate :: "real \<Rightarrow> real list \<Rightarrow> real list" where
  "accumulate acc [] = []"
| "accumulate acc (w # ws) = (acc + w) # accumulate (acc + w) ws"

function bisect_right :: "real list \<Rightarrow> real \<Rightarrow> nat \<Rightarrow> nat \<Rightarrow> nat" where
  "bisect_right a x lo hi =
     (if lo < hi
      then (let mid = (lo + hi) div 2
            in if x < a ! mid then bisect_right a x lo mid else bisect_right a x (mid + 1) hi)
      else lo)"
  by pat_completeness auto
termination
  by (relation "measure (\<lambda>(a, x, lo, hi). hi - lo)") auto

declare bisect_right.simps [simp del]

definition choices :: "'a list \<Rightarrow> real list \<Rightarrow> real \<Rightarrow> 'a" where
  "choices population weights u =
     (let cum_weights = accumulate 0 weights;
          total = last cum_weights;
          hi = length population - 1
      in population ! bisect_right cum_weights (u * total) 0 hi)"

section \<open>Dictionaries and errors\<close>

datatype error = KeyError string | AttributeError string

text \<open>\<open>d[k]\<close> raises \<open>KeyError(k)\<close> on a missing key; \<open>d.get(k, default)\<close> does not.\<close>

definition getitem :: "(string \<rightharpoonup> 'v) \<Rightarrow> string \<Rightarrow> error + 'v" where
  "getitem d k = (case d k of None \<Rightarrow> Inl (KeyError k) | Some v \<Rightarrow> Inr v)"

definition dict_get :: "(string \<times> 'v) list \<Rightarrow> string \<Rightarrow> 'v \<Rightarrow> 'v" where
  "dict_get d k dflt = (case map_of d k of None \<Rightarrow> dflt | Some v \<Rightarrow> v)"

text \<open>Sequencing of statements that may raise.\<close>

definition bind_err :: "error + 'a \<Rightarrow> ('a \<Rightarrow> error + 'b) \<Rightarrow> error + 'b" where
  "bind_err m f = (case m of Inl e \<Rightarrow> Inl e | Inr x \<Rightarrow> f x)"

section \<open>LeadEnricher\<close>

text \<open>An enriched row, the dictionary \<open>_enrich_single_lead\<close> returns and the row scoring
  reads, maps column names to strings.\<close>

type_synonym lead = "string \<rightharpoonup> string"

text \<open>
  The raw table is a \<open>pd.DataFrame\<close>: its column labels and its rows. \<open>df.iterrows()\<close>
  hands every row out as a \<open>pd.Series\<close> over all the columns of the frame, so the rows of
  one frame have the same columns; a cell the file left empty is the float \<open>NaN\<close>, any
  other cell of these columns is a \<open>str\<close>. A row gives a cell for every label: only the
  labels among \<open>columns\<close> are ever read.
\<close>

datatype raw_cell = Text string | NaN

record data_frame =
  columns :: "string list"
  rows :: "(string \<Rightarrow> raw_cell) list"

text \<open>\<open>lead[k]\<close> on a row of a frame with the columns \<open>cols\<close>: \<open>KeyError(k)\<close> when the frame
  has no such column.\<close>

definition series_getitem :: "string list \<Rightarrow> (string \<Rightarrow> raw_cell) \<Rightarrow> string \<Rightarrow> error + raw_cell" where
  "series_getitem cols row k = (if k \<in> set cols then Inr (row k) else Inl (KeyError k))"

text \<open>The receiver of a \<open>str\<close> method: \<open>x.lower()\<close> on the float \<open>NaN\<close> raises
  \<open>AttributeError: 'float' object has no attribute 'lower'\<close>.\<close>

definition str_receiver :: "raw_cell \<Rightarrow> string \<Rightarrow> error + string" where
  "str_receiver x attr = (case x of Text s \<Rightarrow> Inr s | NaN \<Rightarrow> Inl (AttributeError attr))"

definition job_titles :: "(string \<times> string list) list" where
  "job_titles =
     [(''technical'',
        [''Software Engineer'', ''Senior Software Engineer'', ''Lead Developer'',
         ''Full Stack Developer'', ''Frontend Developer'', ''Backend Developer'',
         ''DevOps Engineer'', ''Site Reliability Engineer'', ''Data Engineer'',
         ''Machine Learning Engineer'', ''AI Engineer'', ''Cloud Architect'']),
      (''management'',
        [''Engineering Manager'', ''Technical Lead'', ''Team Lead'',
         ''Principal Engineer'', ''Staff Engineer'', ''Senior Technical Lead'']),
      (''executive'',
        [''CTO'', ''VP Engineering'', ''Head of Engineering'', ''Director of Technology'',
         ''Chief Technology Officer'', ''VP of Product'', ''Head of IT'']),
      (''decision_maker'',
        [''CEO'', ''Founder'', ''Co-Founder'', ''President'', ''VP Sales'',
         ''Chief Executive Officer'', ''Managing Director'']),
      (''other'',
        [''Product Manager'', ''Project Manager'', ''Business Analyst'',
         ''Technical Writer'', ''QA Engineer'', ''Sales Engineer''])]"

definition tech_stacks :: "string list" where
  "tech_stacks =
     [''React, Node.js, MongoDB'', ''Python, Django, PostgreSQL'', ''Java, Spring Boot, MySQL'',
      ''Vue.js, Express, Redis'', ''Angular, .NET, SQL Server'', ''Ruby on Rails, PostgreSQL'',
      ''PHP, Laravel, MySQL'', ''Go, Kubernetes, Docker'', ''Scala, Spark, Cassandra'',
      ''Swift, iOS, Firebase'', ''Kotlin, Android, SQLite'', ''TypeScript, Next.js, Prisma'']"

definition company_sizes :: "string list" where
  "company_sizes = [''Startup'', ''Small'', ''Medium'', ''Large'', ''Enterprise'']"

record enrich_draws =
  u_category :: real
  k_title :: nat
  k_seniority :: nat
  k_tech :: nat
  u_size :: real
  k_area :: nat
  k_exchange :: nat
  k_number :: nat

definition determine_job_category :: "string \<Rightarrow> string \<Rightarrow> real \<Rightarrow> string" where
  "determine_job_category email name u =
     (let email_lower = lower email; name_lower = lower name
      in if any_in [''ceo'', ''founder'', ''president'', ''exec''] email_lower then ''decision_maker''
         else if any_in [''cto'', ''vp'', ''head'', ''director''] email_lower then ''executive''
         else if any_in [''dev'', ''engineer'', ''tech'', ''code''] email_lower then ''technical''
         else if any_in [''manager'', ''lead'', ''principal''] email_lower then ''management''
         else if any_in [''dr'', ''prof'', ''phd''] name_lower then ''technical''
         else choices [''technical'', ''management'', ''executive'', ''decision_maker'', ''other'']
                [4/10, 25/100, 15/100, 1/10, 1/10] u)"

definition determine_seniority :: "string \<Rightarrow> string \<Rightarrow> nat \<Rightarrow> string" where
  "determine_seniority job_title email k =
     (let title_lower = lower job_title
      in if any_in [''ceo'', ''cto'', ''vp'', ''head'', ''director'', ''chief''] title_lower
         then ''Executive''
         else if any_in [''senior'', ''lead'', ''principal'', ''staff'', ''manager''] title_lower
         then ''Senior''
         else if any_in [''junior'', ''associate'', ''intern''] title_lower then ''Junior''
         else choice [''Mid-level'', ''Senior''] k)"

definition determine_company_size :: "string \<Rightarrow> real \<Rightarrow> string" where
  "determine_company_size domain u =
     (let large_domains = [''google'', ''microsoft'', ''apple'', ''amazon'', ''facebook'', ''netflix'']
      in if any_in large_domains (lower domain) then ''Enterprise''
         else choices company_sizes [2/10, 3/10, 3/10, 15/100, 5/100] u)"

text \<open>\<open>str(n)\<close> for a natural number.\<close>

function show_nat :: "nat \<Rightarrow> string" where
  "show_nat n = (if n < 10 then [char_of (48 + n)] else show_nat (n div 10) @ [char_of (48 + n mod 10)])"
  by pat_completeness auto
termination
  by (relation "measure id") auto

declare show_nat.simps [simp del]

definition generate_phone_number :: "nat \<Rightarrow> nat \<Rightarrow> nat \<Rightarrow> string" where
  "generate_phone_number ka ke kn =
     (let area_code = randint 200 999 ka;
          exchange = randint 200 999 ke;
          number = randint 1000 9999 kn
      in ''+1 ('' @ show_nat area_code @ '') '' @ show_nat exchange @ ''-'' @ show_nat number)"

text \<open>
  \<open>_enrich_single_lead\<close> reads the three cells first. The first \<open>.lower()\<close> on the email
  and on the name is in \<open>_determine_job_category\<close>, the first on the domain in
  \<open>_determine_company_size\<close>, after the job title, seniority, URL and tech stack are made.
\<close>

definition enrich_single_lead ::
  "string list \<Rightarrow> (string \<Rightarrow> raw_cell) \<Rightarrow> enrich_draws \<Rightarrow> error + lead" where
  "enrich_single_lead cols lead d =
     bind_err (series_getitem cols lead ''name'') (\<lambda>name_cell.
     bind_err (series_getitem cols lead ''email'') (\<lambda>email_cell.
     bind_err (series_getitem cols lead ''company_domain'') (\<lambda>domain_cell.
     bind_err (str_receiver email_cell ''lower'') (\<lambda>email.
     bind_err (str_receiver name_cell ''lower'') (\<lambda>name.
       let job_category = determine_job_category email name (u_category d)
       in bind_err (getitem (map_of job_titles) job_category) (\<lambda>titles.
       let job_title = choice titles (k_title d);
           seniority = determine_seniority job_title email (k_seniority d);
           linkedin_url = generate_linkedin_url name;
           tech_stack = choice tech_stacks (k_tech d)
       in bind_err (str_receiver domain_cell ''lower'') (\<lambda>company_domain.
       let company_size = determine_company_size company_domain (u_size d);
           phone = generate_phone_number (k_area d) (k_exchange d) (k_number d)
       in Inr (Map.empty
            (''name'' \<mapsto> name, ''email'' \<mapsto> email, ''company_domain'' \<mapsto> company_domain,
             ''job_title'' \<mapsto> job_title, ''seniority_level'' \<mapsto> seniority,
             ''linkedin_url'' \<mapsto> linkedin_url, ''tech_stack'' \<mapsto> tech_stack,
             ''company_size'' \<mapsto> company_size, ''phone'' \<mapsto> phone,
             ''job_category'' \<mapsto> job_category)))))))))"

text \<open>The loop of \<open>enrich_leads\<close> over \<open>df.iterrows()\<close>: row \<open>i\<close> is enriched with the draws
  \<open>rnd i\<close>; an exception in a row leaves the loop and the call.\<close>

fun enrich_rows ::
  "(nat \<Rightarrow> enrich_draws) \<Rightarrow> nat \<Rightarrow> string list \<Rightarrow> (string \<Rightarrow> raw_cell) list \<Rightarrow> error + lead list" where
  "enrich_rows rnd i cols [] = Inr []"
| "enrich_rows rnd i cols (row # rest) =
     bind_err (enrich_single_lead cols row (rnd i)) (\<lambda>enriched_lead.
     bind_err (enrich_rows rnd (Suc i) cols rest) (\<lambda>enriched_data.
       Inr (enriched_lead # enriched_data)))"

definition enrich_leads :: "data_frame \<Rightarrow> (nat \<Rightarrow> enrich_draws) \<Rightarrow> error + lead list" where
  "enrich_leads df rnd = enrich_rows rnd 0 (columns df) (rows df)"

section \<open>ScoringEngine\<close>

text \<open>The attribute \<open>self.weights\<close> is a dictionary; its items are kept in insertion order.\<close>

record scoring_engine =
  weights :: "(string \<times> real) list"

definition init_engine :: scoring_engine where
  "init_engine = \<lparr>weights = [(''job_title'', 4/10), (''tech_stack'', 3/10), (''buying_intent'', 3/10)]\<rparr>"

definition job_title_scores :: "(string \<times> (real \<times> real)) list" where
  "job_title_scores =
     [(''decision_maker'', (90, 100)), (''executive'', (80, 95)), (''management'', (70, 85)),
      (''technical'', (60, 80)), (''other'', (30, 60))]"

definition high_value_tech :: "string list" where
  "high_value_tech =
     [''react'', ''node.js'', ''python'', ''kubernetes'', ''docker'',
      ''aws'', ''azure'', ''microservices'', ''api'', ''cloud'']"

definition size_multipliers :: "(string \<times> real) list" where
  "size_multipliers =
     [(''Enterprise'', 12/10), (''Large'', 11/10), (''Medium'', 1), (''Small'', 9/10),
      (''Startup'', 8/10)]"


text \<open>\<open>max(0, min(100, x))\<close>\<close>

definition clamp :: "real \<Rightarrow> real" where
  "clamp x = max 0 (min 100 x)"

text \<open>\<open>round(x, 1)\<close>: to the nearest tenth, a tie going to the even tenth.\<close>

definition round1 :: "real \<Rightarrow> real" where
  "round1 x =
     (let y = x * 10; f = \<lfloor>y\<rfloor>; r = y - of_int f
      in of_int (if r < 1/2 then f else if 1/2 < r then f + 1 else if even f then f else f + 1) / 10)"

record score_draws =
  u_job :: real
  u_tech :: real
  u_market :: real
  u_noise :: real

definition score_job_title :: "string \<Rightarrow> string \<Rightarrow> real \<Rightarrow> real" where
  "score_job_title job_category seniority u =
     (let base_range = dict_get job_title_scores job_category (30, 60);
          base_score = uniform (fst base_range) (snd base_range) u;
          seniority_bonus =
            dict_get [(''Executive'', 10), (''Senior'', 5), (''Mid-level'', 0), (''Junior'', - 10)]
              seniority 0
      in clamp (base_score + seniority_bonus))"

definition tech_matches :: "string \<Rightarrow> nat" where
  "tech_matches tech_stack =
     (let tech_lower = lower tech_stack
      in length (filter (\<lambda>tech. contains tech_lower tech) high_value_tech))"

definition score_tech_stack :: "string \<Rightarrow> real \<Rightarrow> real" where
  "score_tech_stack tech_stack u =
     (let n = tech_matches tech_stack
      in if n \<ge> 3 then uniform 85 100 u
         else if n \<ge> 2 then uniform 70 90 u
         else if n \<ge> 1 then uniform 55 75 u
         else uniform 30 60 u)"

definition score_buying_intent :: "lead \<Rightarrow> real \<Rightarrow> real \<Rightarrow> error + real" where
  "score_buying_intent lead um un =
     bind_err (getitem lead ''job_category'') (\<lambda>job_category.
       let category_factor =
             (if job_category \<in> set [''decision_maker'', ''executive''] then 20
              else if job_category = ''management'' then 10 else 0)
       in bind_err (getitem lead ''company_size'') (\<lambda>company_size.
       let size_bonus =
             dict_get [(''Enterprise'', 15), (''Large'', 10), (''Medium'', 5), (''Small'', 0),
                       (''Startup'', 10)] company_size 0
       in bind_err (getitem lead ''seniority_level'') (\<lambda>seniority_level.
       let seniority_bonus =
             dict_get [(''Executive'', 15), (''Senior'', 10), (''Mid-level'', 5), (''Junior'', 0)]
               seniority_level 0;
           market_factor = uniform 0 25 um;
           total_intent = sum_list [category_factor, size_bonus, seniority_bonus, market_factor];
           final_intent = total_intent + uniform (- 10) 10 un
       in Inr (clamp final_intent))))"

text \<open>A cell of a scored row. \<open>Scored_text t x\<close> is the formatted string
  \<open>t + " (Score: " + str(x) + ")"\<close>, kept with the number it embeds.\<close>

datatype cell = Str string | Num real | Scored_text string real

fun join :: "string \<Rightarrow> string list \<Rightarrow> string" where
  "join sep [] = []"
| "join sep [x] = x"
| "join sep (x # y # ys) = x @ sep @ join sep (y # ys)"

definition generate_explanation :: "real \<Rightarrow> real \<Rightarrow> real \<Rightarrow> real \<Rightarrow> cell" where
  "generate_explanation job_score tech_score intent_score final_score =
     (let e1 = (if job_score \<ge> 85 then ''High-value decision maker''
                else if job_score \<ge> 70 then ''Technical leader/manager''
                else if job_score \<ge> 50 then ''Technical professional''
                else ''Lower relevance role'');
          e2 = (if tech_score \<ge> 80 then ''excellent tech fit''
                else if tech_score \<ge> 60 then ''good tech alignment''
                else ''limited tech relevance'');
          e3 = (if intent_score \<ge> 75 then ''strong buying signals''
                else if intent_score \<ge> 50 then ''moderate buying intent''
                else ''weak buying signals'')
      in Scored_text (join '', '' [e1, e2, e3]) final_score)"

text \<open>\<open>lead.to_dict()\<close>\<close>

definition to_dict :: "lead \<Rightarrow> (string \<rightharpoonup> cell)" where
  "to_dict lead = (\<lambda>k. map_option Str (lead k))"

definition score_single_lead ::
  "scoring_engine \<Rightarrow> lead \<Rightarrow> score_draws \<Rightarrow> error + (string \<rightharpoonup> cell)" where
  "score_single_lead self lead d =
     bind_err (getitem lead ''job_category'') (\<lambda>job_category.
     bind_err (getitem lead ''seniority_level'') (\<lambda>seniority_level.
       let job_title_score = score_job_title job_category seniority_level (u_job d)
       in bind_err (getitem lead ''tech_stack'') (\<lambda>tech_stack.
       let tech_stack_score = score_tech_stack tech_stack (u_tech d)
       in bind_err (score_buying_intent lead (u_market d) (u_noise d)) (\<lambda>buying_intent_score.
     bind_err (getitem lead ''company_size'') (\<lambda>company_size.
       let size_multiplier = dict_get size_multipliers company_size 1
       in bind_err (getitem (map_of (weights self)) ''job_title'') (\<lambda>w_job.
     bind_err (getitem (map_of (weights self)) ''tech_stack'') (\<lambda>w_tech.
     bind_err (getitem (map_of (weights self)) ''buying_intent'') (\<lambda>w_intent.
       let final_score =
             clamp ((job_title_score * w_job + tech_stack_score * w_tech
                      + buying_intent_score * w_intent) * size_multiplier)
       in Inr ((to_dict lead)
            (''job_title_score'' \<mapsto> Num (round1 job_title_score),
             ''tech_stack_score'' \<mapsto> Num (round1 tech_stack_score),
             ''buying_intent_score'' \<mapsto> Num (round1 buying_intent_score),
             ''lead_score'' \<mapsto> Num (round1 final_score),
             ''score_explanation'' \<mapsto>
               generate_explanation job_title_score tech_stack_score buying_intent_score
                 final_score))))))))))"





text \<open>Reading a column of a result row; \<open>None\<close> when the call raised or the row has no
  such column.\<close>

definition field :: "error + (string \<rightharpoonup> 'v) \<Rightarrow> string \<Rightarrow> 'v option" where
  "field r k = (case r of Inl e \<Rightarrow> None | Inr row \<Rightarrow> row k)"

section \<open>Sample data\<close>

text \<open>The first row of \<open>create_sample_csv\<close> with one possible enrichment, and one
  possible sequence of draws for its scoring.\<close>

definition sample_lead :: lead where
  "sample_lead =
     [''name'' \<mapsto> ''John Smith'', ''email'' \<mapsto> ''john.smith@techcorp.com'',
      ''company_domain'' \<mapsto> ''techcorp.com'', ''job_title'' \<mapsto> ''Lead Developer'',
      ''seniority_level'' \<mapsto> ''Senior'',
      ''linkedin_url'' \<mapsto> ''https://linkedin.com/in/john-smith'',
      ''tech_stack'' \<mapsto> ''Go, Kubernetes, Docker'', ''company_size'' \<mapsto> ''Large'',
      ''phone'' \<mapsto> ''+1 (415) 555-2671'', ''job_category'' \<mapsto> ''technical'']"

definition sample_draws :: score_draws where
  "sample_draws = \<lparr>u_job = 1/3, u_tech = 1/7, u_market = 1/2, u_noise = 1/4\<rparr>"

section \<open>Tables with a missing field\<close>

text \<open>The columns \<open>_enrich_single_lead\<close> reads, in the order it reads them; the first of
  them that a frame lacks; and a row whose three cells all hold text.\<close>

definition required_fields :: "string list" where
  "required_fields = [''name'', ''email'', ''company_domain'']"

definition absent_column :: "string list \<Rightarrow> string option" where
  "absent_column cols = find (\<lambda>k. k \<notin> set cols) required_fields"

definition text_row :: "(string \<Rightarrow> raw_cell) \<Rightarrow> bool" where
  "text_row row = list_all (\<lambda>k. row k \<noteq> NaN) required_fields"

text \<open>A row written by its cells; a label that is not listed has an empty cell.\<close>

definition series :: "(string \<times> raw_cell) list \<Rightarrow> string \<Rightarrow> raw_cell" where
  "series cells k = (case map_of cells k of None \<Rightarrow> NaN | Some x \<Rightarrow> x)"

text \<open>One possible sequence of draws for the enrichment of row \<open>i\<close>.\<close>

definition sample_enrich_draws :: "nat \<Rightarrow> enrich_draws" where
  "sample_enrich_draws i =
     \<lparr>u_category = 1/2, k_title = i, k_seniority = 1, k_tech = 7, u_size = 3/10,
      k_area = 215, k_exchange = 355, k_number = 1671\<rparr>"


section \<open>Verification\<close>

subsection \<open>LinkedIn URL\<close>

lemma length_hyphenate_runs: "length (hyphenate_runs b s) \<le> length s"
  by (induction s arbitrary: b) (auto simp: le_SucI)

lemma space_is_space: "is_space (CHR '' '')"
  by (simp add: is_space_def)

lemma hyphen_not_space: "\<not> is_space (CHR ''-'')"
  by (simp add: is_space_def)

lemma replace_eq_runs_iff:
  "replace_char (CHR '' '') (CHR ''-'') s = hyphenate_runs b s \<longleftrightarrow> single_spaced b s"
proof (induction s arbitrary: b)
  case Nil
  show ?case by (simp add: replace_char_def)
next
  case (Cons c cs)
  have IH: "\<And>b. map (\<lambda>c. if c = CHR '' '' then CHR ''-'' else c) cs = hyphenate_runs b cs
      \<longleftrightarrow> single_spaced b cs"
    using Cons.IH by (simp add: replace_char_def)
  show ?case
  proof (cases "is_space c")
    case False
    then have "c \<noteq> CHR '' ''" using space_is_space by auto
    with False show ?thesis by (simp add: replace_char_def IH)
  next
    case True
    show ?thesis
    proof (cases b)
      case True
      have "length (hyphenate_runs True cs) \<le> length cs" by (rule length_hyphenate_runs)
      then have "replace_char (CHR '' '') (CHR ''-'') (c # cs) \<noteq> hyphenate_runs True cs"
        by (auto simp: replace_char_def dest!: arg_cong [where f = length])
      with \<open>is_space c\<close> True show ?thesis by simp
    next
      case False
      have "c \<noteq> CHR ''-''" using \<open>is_space c\<close> hyphen_not_space by auto
      with \<open>is_space c\<close> False show ?thesis by (auto simp: replace_char_def IH)
    qed
  qed
qed

text \<open>
  C8, as the specification states it, fails: a run of two spaces gives two hyphens, and
  a tab survives in the slug, where the specification's slug has one hyphen for each.
\<close>

theorem linkedin_url_runs_counterexample:
  "generate_linkedin_url ''John  Smith'' = ''https://linkedin.com/in/john--smith''
   \<and> generate_linkedin_url ''John  Smith'' \<noteq> ''https://linkedin.com/in/'' @ spec_slug ''John  Smith''
   \<and> generate_linkedin_url [CHR ''A'', CHR 0x09, CHR ''b'']
       = ''https://linkedin.com/in/'' @ [CHR ''a'', CHR 0x09, CHR ''b'']
   \<and> spec_slug [CHR ''A'', CHR 0x09, CHR ''b''] = ''a-b''"
  by code_simp

text \<open>
  C8 (amended): the URL is the fixed prefix followed by the name with every character
  other than an ASCII letter or whitespace deleted, lowercased, and each space character
  replaced by one hyphen (whitespace other than the space is left as it is). This is the
  specification's slug, one hyphen for each whitespace run, exactly when every whitespace
  character left in the cleaned name is a space standing alone.
\<close>

theorem linkedin_url_slug:
  "generate_linkedin_url name =
     ''https://linkedin.com/in/'' @
       map (\<lambda>c. if c = CHR '' '' then CHR ''-'' else c)
         (map lower_char (filter (\<lambda>c. is_letter c \<or> is_space c) name))
   \<and> (generate_linkedin_url name = ''https://linkedin.com/in/'' @ spec_slug name
        \<longleftrightarrow> single_spaced False (lower (clean_name name)))"
  by (simp add: generate_linkedin_url_def spec_slug_def replace_eq_runs_iff)
     (simp add: replace_char_def lower_def clean_name_def)

subsection \<open>Substring search\<close>

lemma startswith_iff: "startswith s p \<longleftrightarrow> (\<exists>suf. s = p @ suf)"
  by (induction s p rule: startswith.induct) auto

lemma contains_iff: "contains s p \<longleftrightarrow> (\<exists>pre suf. s = pre @ p @ suf)"
proof (induction s)
  case Nil
  show ?case by auto
next
  case (Cons c cs)
  show ?case
  proof
    assume "contains (c # cs) p"
    then consider "startswith (c # cs) p" | "contains cs p" by auto
    then show "\<exists>pre suf. c # cs = pre @ p @ suf"
    proof cases
      case 1
      then obtain suf where "c # cs = p @ suf" using startswith_iff by blast
      then have "c # cs = [] @ p @ suf" by simp
      then show ?thesis by blast
    next
      case 2
      then obtain pre suf where "cs = pre @ p @ suf" using Cons.IH by blast
      then have "c # cs = (c # pre) @ p @ suf" by simp
      then show ?thesis by blast
    qed
  next
    assume "\<exists>pre suf. c # cs = pre @ p @ suf"
    then obtain pre suf where eq: "c # cs = pre @ p @ suf" by blast
    show "contains (c # cs) p"
    proof (cases pre)
      case Nil
      with eq have "startswith (c # cs) p" using startswith_iff by auto
      then show ?thesis by simp
    next
      case (Cons a pre')
      with eq have "cs = pre' @ p @ suf" by simp
      then have "contains cs p" using Cons.IH by blast
      then show ?thesis by simp
    qed
  qed
qed

lemma any_in_iff: "any_in ps s \<longleftrightarrow> (\<exists>p\<in>set ps. \<exists>pre suf. s = pre @ p @ suf)"
  by (induction ps) (auto simp: contains_iff)

subsection \<open>Weighted draws\<close>

lemma bisect_right_done: "bisect_right a x n n = n"
  by (simp add: bisect_right.simps)

lemma bisect_right_5:
  "bisect_right [c0, c1, c2, c3, c4] x 0 4 =
     (if x < c2 then (if x < c1 then (if x < c0 then 0 else 1) else 2)
      else if x < c3 then 3 else 4)"
proof -
  let ?a = "[c0, c1, c2, c3, c4]"
  have s04: "bisect_right ?a x 0 4 = (if x < c2 then bisect_right ?a x 0 2 else bisect_right ?a x 3 4)"
    by (subst bisect_right.simps) (simp; simp add: eval_nat_numeral)
  have s02: "bisect_right ?a x 0 2 = (if x < c1 then bisect_right ?a x 0 1 else bisect_right ?a x 2 2)"
    by (subst bisect_right.simps) (simp; simp add: eval_nat_numeral)
  have s01: "bisect_right ?a x 0 1 = (if x < c0 then bisect_right ?a x 0 0 else bisect_right ?a x 1 1)"
    by (subst bisect_right.simps) (simp; simp add: eval_nat_numeral)
  have s34: "bisect_right ?a x 3 4 = (if x < c3 then bisect_right ?a x 3 3 else bisect_right ?a x 4 4)"
    by (subst bisect_right.simps) (simp; simp add: eval_nat_numeral)
  show ?thesis
    unfolding s04 s02 s01 s34 bisect_right_done by simp
qed

lemma choices_5:
  "choices [p0, p1, p2, p3, p4] [w0, w1, w2, w3, w4] u =
     (let c0 = w0; c1 = c0 + w1; c2 = c1 + w2; c3 = c2 + w3; total = c3 + w4; x = u * total
      in if x < c2 then (if x < c1 then (if x < c0 then p0 else p1) else p2)
         else if x < c3 then p3 else p4)"
proof -
  have len: "length [p0, p1, p2, p3, p4] - 1 = 4" by simp
  show ?thesis
    unfolding choices_def len by (simp add: bisect_right_5 Let_def)
qed

subsection \<open>Company size\<close>

text \<open>
  C4: a domain whose lowercased text contains one of the six large-company fragments is
  \<open>Enterprise\<close> whatever the draw is; any other domain takes the bucket of the draw
  \<open>u\<close> among the consecutive intervals of lengths 0.20 (Startup), 0.30 (Small), 0.30
  (Medium), 0.15 (Large) and 0.05 (Enterprise) that partition \<open>[0, 1)\<close>.
\<close>

theorem company_size_positional:
  "((\<exists>p\<in>set [''google'', ''microsoft'', ''apple'', ''amazon'', ''facebook'', ''netflix''].
       \<exists>pre suf. lower domain = pre @ p @ suf)
      \<longrightarrow> determine_company_size domain u = ''Enterprise'')
   \<and> (\<not> (\<exists>p\<in>set [''google'', ''microsoft'', ''apple'', ''amazon'', ''facebook'', ''netflix''].
           \<exists>pre suf. lower domain = pre @ p @ suf)
      \<longrightarrow> determine_company_size domain u =
            (if u < 20/100 then ''Startup''
             else if u < 50/100 then ''Small''
             else if u < 80/100 then ''Medium''
             else if u < 95/100 then ''Large''
             else ''Enterprise''))"
  unfolding determine_company_size_def Let_def any_in_iff [symmetric]
  by (simp add: company_sizes_def choices_5)

theorem company_size_positional_witness:
  "determine_company_size ''www.Google.com'' (1/10) = ''Enterprise''
   \<and> determine_company_size ''acme.com'' (1/10) = ''Startup''
   \<and> determine_company_size ''acme.com'' (94/100) = ''Large''"
proof -
  have g: "any_in [''google'', ''microsoft'', ''apple'', ''amazon'', ''facebook'', ''netflix'']
             (lower ''www.Google.com'')"
    by code_simp
  have a: "\<not> any_in [''google'', ''microsoft'', ''apple'', ''amazon'', ''facebook'', ''netflix'']
             (lower ''acme.com'')"
    by code_simp
  show ?thesis
    using company_size_positional [of "''www.Google.com''" "1/10", unfolded any_in_iff [symmetric]]
      company_size_positional [of "''acme.com''" "1/10", unfolded any_in_iff [symmetric]]
      company_size_positional [of "''acme.com''" "94/100", unfolded any_in_iff [symmetric]] g a
    by (simp del: any_in.simps)
qed

subsection \<open>Job category\<close>

text \<open>
  C5: the first rule that matches decides. The four email rules look for a fragment in the
  lowercased email, the name rule for one in the lowercased name; when none matches, the
  category is the bucket of the draw \<open>u\<close> among consecutive intervals of lengths 0.40
  (technical), 0.25 (management), 0.15 (executive), 0.10 (decision_maker), 0.10 (other).
\<close>

theorem job_category_cascade:
  "((\<exists>p\<in>set [''ceo'', ''founder'', ''president'', ''exec'']. \<exists>pre suf. lower email = pre @ p @ suf)
      \<longrightarrow> determine_job_category email name u = ''decision_maker'')
   \<and> (\<not> (\<exists>p\<in>set [''ceo'', ''founder'', ''president'', ''exec'']. \<exists>pre suf. lower email = pre @ p @ suf)
      \<longrightarrow>
      ((\<exists>p\<in>set [''cto'', ''vp'', ''head'', ''director'']. \<exists>pre suf. lower email = pre @ p @ suf)
         \<longrightarrow> determine_job_category email name u = ''executive'')
      \<and> (\<not> (\<exists>p\<in>set [''cto'', ''vp'', ''head'', ''director'']. \<exists>pre suf. lower email = pre @ p @ suf)
         \<longrightarrow>
         ((\<exists>p\<in>set [''dev'', ''engineer'', ''tech'', ''code'']. \<exists>pre suf. lower email = pre @ p @ suf)
            \<longrightarrow> determine_job_category email name u = ''technical'')
         \<and> (\<not> (\<exists>p\<in>set [''dev'', ''engineer'', ''tech'', ''code'']. \<exists>pre suf. lower email = pre @ p @ suf)
            \<longrightarrow>
            ((\<exists>p\<in>set [''manager'', ''lead'', ''principal'']. \<exists>pre suf. lower email = pre @ p @ suf)
               \<longrightarrow> determine_job_category email name u = ''management'')
            \<and> (\<not> (\<exists>p\<in>set [''manager'', ''lead'', ''principal'']. \<exists>pre suf. lower email = pre @ p @ suf)
               \<longrightarrow>
               ((\<exists>p\<in>set [''dr'', ''prof'', ''phd'']. \<exists>pre suf. lower name = pre @ p @ suf)
                  \<longrightarrow> determine_job_category email name u = ''technical'')
               \<and> (\<not> (\<exists>p\<in>set [''dr'', ''prof'', ''phd'']. \<exists>pre suf. lower name = pre @ p @ suf)
                  \<longrightarrow> determine_job_category email name u =
                        (if u < 40/100 then ''technical''
                         else if u < 65/100 then ''management''
                         else if u < 80/100 then ''executive''
                         else if u < 90/100 then ''decision_maker''
                         else ''other''))))))"
  unfolding determine_job_category_def Let_def any_in_iff [symmetric]
  by (simp add: choices_5)

theorem job_category_cascade_witness:
  "determine_job_category ''ceo@acme.com'' ''Dr. Jane Doe'' (1/2) = ''decision_maker''
   \<and> determine_job_category ''cto.dev@acme.com'' ''Jane Doe'' (1/2) = ''executive''
   \<and> determine_job_category ''jane.dev@acme.com'' ''Jane Doe'' (1/2) = ''technical''
   \<and> determine_job_category ''team.lead@acme.com'' ''Jane Doe'' (1/2) = ''management''
   \<and> determine_job_category ''jane@acme.com'' ''Dr. Jane Doe'' (1/2) = ''technical''
   \<and> determine_job_category ''jane@acme.com'' ''Jane Doe'' (1/2) = ''management''
   \<and> determine_job_category ''jane@acme.com'' ''Jane Doe'' (95/100) = ''other''"
proof -
  have h1: "any_in [''ceo'', ''founder'', ''president'', ''exec''] (lower ''ceo@acme.com'')"
    by code_simp
  have h2: "\<not> any_in [''ceo'', ''founder'', ''president'', ''exec''] (lower ''cto.dev@acme.com'')"
    "any_in [''cto'', ''vp'', ''head'', ''director''] (lower ''cto.dev@acme.com'')"
    by code_simp+
  have h3: "\<not> any_in [''ceo'', ''founder'', ''president'', ''exec''] (lower ''jane.dev@acme.com'')"
    "\<not> any_in [''cto'', ''vp'', ''head'', ''director''] (lower ''jane.dev@acme.com'')"
    "any_in [''dev'', ''engineer'', ''tech'', ''code''] (lower ''jane.dev@acme.com'')"
    by code_simp+
  have h4: "\<not> any_in [''ceo'', ''founder'', ''president'', ''exec''] (lower ''team.lead@acme.com'')"
    "\<not> any_in [''cto'', ''vp'', ''head'', ''director''] (lower ''team.lead@acme.com'')"
    "\<not> any_in [''dev'', ''engineer'', ''tech'', ''code''] (lower ''team.lead@acme.com'')"
    "any_in [''manager'', ''lead'', ''principal''] (lower ''team.lead@acme.com'')"
    by code_simp+
  have h5: "\<not> any_in [''ceo'', ''founder'', ''president'', ''exec''] (lower ''jane@acme.com'')"
    "\<not> any_in [''cto'', ''vp'', ''head'', ''director''] (lower ''jane@acme.com'')"
    "\<not> any_in [''dev'', ''engineer'', ''tech'', ''code''] (lower ''jane@acme.com'')"
    "\<not> any_in [''manager'', ''lead'', ''principal''] (lower ''jane@acme.com'')"
    "any_in [''dr'', ''prof'', ''phd''] (lower ''Dr. Jane Doe'')"
    "\<not> any_in [''dr'', ''prof'', ''phd''] (lower ''Jane Doe'')"
    by code_simp+
  show ?thesis
    using job_category_cascade [of "''ceo@acme.com''" "''Dr. Jane Doe''" "1/2", unfolded any_in_iff [symmetric]]
      job_category_cascade [of "''cto.dev@acme.com''" "''Jane Doe''" "1/2", unfolded any_in_iff [symmetric]]
      job_category_cascade [of "''jane.dev@acme.com''" "''Jane Doe''" "1/2", unfolded any_in_iff [symmetric]]
      job_category_cascade [of "''team.lead@acme.com''" "''Jane Doe''" "1/2", unfolded any_in_iff [symmetric]]
      job_category_cascade [of "''jane@acme.com''" "''Dr. Jane Doe''" "1/2", unfolded any_in_iff [symmetric]]
      job_category_cascade [of "''jane@acme.com''" "''Jane Doe''" "1/2", unfolded any_in_iff [symmetric]]
      job_category_cascade [of "''jane@acme.com''" "''Jane Doe''" "95/100", unfolded any_in_iff [symmetric]]
      h1 h2 h3 h4 h5
    by (simp del: any_in.simps)
qed

subsection \<open>Tech-stack sub-score\<close>

lemma uniform_bounds: "a \<le> b \<Longrightarrow> 0 \<le> u \<Longrightarrow> u \<le> 1 \<Longrightarrow> a \<le> uniform a b u \<and> uniform a b u \<le> b"
proof -
  assume ab: "a \<le> b" and u0: "0 \<le> u" and u1: "u \<le> 1"
  have "0 \<le> (b - a) * u" using ab u0 by simp
  moreover have "(b - a) * u \<le> (b - a) * 1" using ab u1 by (intro mult_left_mono) simp_all
  ultimately show ?thesis by (simp add: uniform_def)
qed

lemma tech_matches_card:
  "tech_matches ts = card {t \<in> set high_value_tech. \<exists>pre suf. lower ts = pre @ t @ suf}"
proof -
  have d: "distinct high_value_tech" by (simp add: high_value_tech_def)
  have "tech_matches ts = length (filter (\<lambda>t. \<exists>pre suf. lower ts = pre @ t @ suf) high_value_tech)"
    by (simp add: tech_matches_def contains_iff)
  also have "\<dots> = card (set (filter (\<lambda>t. \<exists>pre suf. lower ts = pre @ t @ suf) high_value_tech))"
    using d by (simp add: distinct_card [symmetric] del: set_filter)
  finally show ?thesis by simp
qed

text \<open>
  C7: the number of matches is the number of vocabulary terms that occur in the lowercased
  tech-stack string; the score is the affine image \<open>lo + (hi - lo) * u\<close> of the unit draw
  in the range chosen by that number, so it lies in that range; and
  \<open>"Go, Kubernetes, Docker"\<close> has exactly two matches and scores in [70, 90].
\<close>

theorem tech_stack_score_range:
  "tech_matches ts = card {t \<in> set high_value_tech. \<exists>pre suf. lower ts = pre @ t @ suf}
   \<and> high_value_tech = [''react'', ''node.js'', ''python'', ''kubernetes'', ''docker'',
                        ''aws'', ''azure'', ''microservices'', ''api'', ''cloud'']
   \<and> score_tech_stack ts u =
       (if 3 \<le> tech_matches ts then uniform 85 100 u
        else if tech_matches ts = 2 then uniform 70 90 u
        else if tech_matches ts = 1 then uniform 55 75 u
        else uniform 30 60 u)
   \<and> (0 \<le> u \<and> u \<le> 1 \<longrightarrow>
        (3 \<le> tech_matches ts \<longrightarrow> 85 \<le> score_tech_stack ts u \<and> score_tech_stack ts u \<le> 100)
      \<and> (tech_matches ts = 2 \<longrightarrow> 70 \<le> score_tech_stack ts u \<and> score_tech_stack ts u \<le> 90)
      \<and> (tech_matches ts = 1 \<longrightarrow> 55 \<le> score_tech_stack ts u \<and> score_tech_stack ts u \<le> 75)
      \<and> (tech_matches ts = 0 \<longrightarrow> 30 \<le> score_tech_stack ts u \<and> score_tech_stack ts u \<le> 60))
   \<and> tech_matches ''Go, Kubernetes, Docker'' = 2
   \<and> (0 \<le> u \<and> u \<le> 1 \<longrightarrow>
        70 \<le> score_tech_stack ''Go, Kubernetes, Docker'' u
        \<and> score_tech_stack ''Go, Kubernetes, Docker'' u \<le> 90)"
proof -
  have go: "tech_matches ''Go, Kubernetes, Docker'' = 2" by code_simp
  have eq: "score_tech_stack ts u =
       (if 3 \<le> tech_matches ts then uniform 85 100 u
        else if tech_matches ts = 2 then uniform 70 90 u
        else if tech_matches ts = 1 then uniform 55 75 u
        else uniform 30 60 u)" for ts
    by (auto simp: score_tech_stack_def Let_def)
  have b: "0 \<le> u \<and> u \<le> 1 \<longrightarrow>
        (3 \<le> tech_matches ts \<longrightarrow> 85 \<le> score_tech_stack ts u \<and> score_tech_stack ts u \<le> 100)
      \<and> (tech_matches ts = 2 \<longrightarrow> 70 \<le> score_tech_stack ts u \<and> score_tech_stack ts u \<le> 90)
      \<and> (tech_matches ts = 1 \<longrightarrow> 55 \<le> score_tech_stack ts u \<and> score_tech_stack ts u \<le> 75)
      \<and> (tech_matches ts = 0 \<longrightarrow> 30 \<le> score_tech_stack ts u \<and> score_tech_stack ts u \<le> 60)" for ts
    using uniform_bounds [of 85 100 u] uniform_bounds [of 70 90 u]
      uniform_bounds [of 55 75 u] uniform_bounds [of 30 60 u]
    by (simp add: eq)
  show ?thesis
    using tech_matches_card [of ts] eq [of ts] b [of ts] b [of "''Go, Kubernetes, Docker''"] go
    by (simp add: high_value_tech_def)
qed

theorem tech_stack_score_range_witness:
  "(0::real) \<le> 1/2 \<and> (1/2::real) \<le> 1
   \<and> tech_matches ''React, Node.js, AWS'' = 3
   \<and> score_tech_stack ''React, Node.js, AWS'' (1/2) = 925/10
   \<and> 85 \<le> score_tech_stack ''React, Node.js, AWS'' (1/2)
   \<and> score_tech_stack ''React, Node.js, AWS'' (1/2) \<le> 100
   \<and> 70 \<le> score_tech_stack ''Go, Kubernetes, Docker'' (1/2)
   \<and> score_tech_stack ''Go, Kubernetes, Docker'' (1/2) \<le> 90"
proof -
  have m: "tech_matches ''React, Node.js, AWS'' = 3" by code_simp
  show ?thesis
    using tech_stack_score_range [of "''React, Node.js, AWS''" "1/2"] m
    by (simp add: uniform_def)
qed

subsection \<open>Clamping and rounding\<close>

lemma clamp_bounds: "0 \<le> clamp x \<and> clamp x \<le> 100"
  by (simp add: clamp_def)

lemma round1_bounds:
  assumes "0 \<le> x" and "x \<le> 100"
  shows "0 \<le> round1 x \<and> round1 x \<le> 100"
proof -
  let ?f = "\<lfloor>x * 10\<rfloor>"
  have f0: "0 \<le> ?f" using assms by simp
  have flo: "of_int ?f \<le> x * 10" by (rule of_int_floor_le)
  have f1: "?f \<le> 1000" using assms by (simp add: floor_le_iff)
  have up: "?f + 1 \<le> 1000" if "1/2 \<le> x * 10 - of_int ?f"
  proof -
    have "of_int ?f \<le> (1000::real) - 1/2" using that assms by linarith
    then have "of_int ?f < (1000 :: real)" by linarith
    then have "?f < 1000" by simp
    then show ?thesis by simp
  qed
  have r0: "(0::real) \<le> of_int ?f" using f0 by simp
  have r1: "(of_int ?f :: real) \<le> 1000" using f1 by linarith
  have r2: "(of_int ?f :: real) + 1 \<le> 1000" if "1/2 \<le> x * 10 - of_int ?f"
    using up [OF that] by linarith
  show ?thesis
    unfolding round1_def Let_def using r0 r1 r2 by (auto simp: not_less)
qed

lemma round1_clamp_bounds: "0 \<le> round1 (clamp x) \<and> round1 (clamp x) \<le> 100"
  using round1_bounds [of "clamp x"] clamp_bounds [of x] by simp

lemma score_tech_stack_bounds:
  "0 \<le> u \<Longrightarrow> u \<le> 1 \<Longrightarrow> 30 \<le> score_tech_stack ts u \<and> score_tech_stack ts u \<le> 100"
  using uniform_bounds [of 85 100 u] uniform_bounds [of 70 90 u]
    uniform_bounds [of 55 75 u] uniform_bounds [of 30 60 u]
  by (simp add: score_tech_stack_def Let_def)

subsection \<open>Scoring one lead\<close>

lemma score_job_title_bounds:
  "0 \<le> score_job_title jc sl u \<and> score_job_title jc sl u \<le> 100"
  by (simp add: score_job_title_def Let_def clamp_bounds)

lemma score_buying_intent_Inr:
  assumes "lead ''job_category'' = Some jc" and "lead ''company_size'' = Some cs"
    and "lead ''seniority_level'' = Some sl"
  shows "\<exists>b. score_buying_intent lead um un = Inr b \<and> 0 \<le> b \<and> b \<le> 100"
  using assms
  by (simp add: score_buying_intent_def getitem_def bind_err_def Let_def clamp_bounds)

lemma score_single_lead_Inr:
  assumes "lead ''job_category'' = Some jc" and "lead ''seniority_level'' = Some sl"
    and "lead ''tech_stack'' = Some ts" and "lead ''company_size'' = Some cs"
    and "map_of (weights self) ''job_title'' = Some wj"
    and "map_of (weights self) ''tech_stack'' = Some wt"
    and "map_of (weights self) ''buying_intent'' = Some wi"
    and "score_buying_intent lead (u_market d) (u_noise d) = Inr b"
  shows "score_single_lead self lead d =
     Inr ((to_dict lead)
       (''job_title_score'' \<mapsto> Num (round1 (score_job_title jc sl (u_job d))),
        ''tech_stack_score'' \<mapsto> Num (round1 (score_tech_stack ts (u_tech d))),
        ''buying_intent_score'' \<mapsto> Num (round1 b),
        ''lead_score'' \<mapsto>
          Num (round1 (clamp ((score_job_title jc sl (u_job d) * wj
                                + score_tech_stack ts (u_tech d) * wt + b * wi)
                               * dict_get size_multipliers cs 1))),
        ''score_explanation'' \<mapsto>
          generate_explanation (score_job_title jc sl (u_job d))
            (score_tech_stack ts (u_tech d)) b
            (clamp ((score_job_title jc sl (u_job d) * wj
                      + score_tech_stack ts (u_tech d) * wt + b * wi)
                     * dict_get size_multipliers cs 1))))"
  using assms by (simp add: score_single_lead_def getitem_def bind_err_def Let_def)

lemma score_single_lead_fields:
  assumes "lead ''job_category'' = Some jc" and "lead ''seniority_level'' = Some sl"
    and "lead ''tech_stack'' = Some ts" and "lead ''company_size'' = Some cs"
    and "map_of (weights self) ''job_title'' = Some wj"
    and "map_of (weights self) ''tech_stack'' = Some wt"
    and "map_of (weights self) ''buying_intent'' = Some wi"
    and "score_buying_intent lead (u_market d) (u_noise d) = Inr b"
  shows "\<exists>out. score_single_lead self lead d = Inr out
     \<and> out ''job_title_score'' = Some (Num (round1 (score_job_title jc sl (u_job d))))
     \<and> out ''tech_stack_score'' = Some (Num (round1 (score_tech_stack ts (u_tech d))))
     \<and> out ''buying_intent_score'' = Some (Num (round1 b))
     \<and> out ''lead_score'' =
         Some (Num (round1 (clamp ((score_job_title jc sl (u_job d) * wj
                                    + score_tech_stack ts (u_tech d) * wt + b * wi)
                                   * dict_get size_multipliers cs 1))))
     \<and> out ''score_explanation'' =
         Some (generate_explanation (score_job_title jc sl (u_job d))
                 (score_tech_stack ts (u_tech d)) b
                 (clamp ((score_job_title jc sl (u_job d) * wj
                           + score_tech_stack ts (u_tech d) * wt + b * wi)
                          * dict_get size_multipliers cs 1)))
     \<and> (\<forall>k. k \<notin> set [''job_title_score'', ''tech_stack_score'', ''buying_intent_score'',
                      ''lead_score'', ''score_explanation'']
            \<longrightarrow> out k = map_option Str (lead k))"
  by (simp add: score_single_lead_Inr [OF assms] to_dict_def)

text \<open>
  C1: a lead that has the four columns scoring reads (with any strings in them), any
  weights dictionary that has the three weights (of any values), any draws with the
  tech-stack draw in the unit interval: scoring returns a row, and its four scores lie in
  [0, 100]. A category outside the table scores as \<open>other\<close> does, and a size outside
  the table has the multiplier 1.
\<close>

theorem scoring_total_and_bounded:
  assumes "lead ''job_category'' = Some jc" and "lead ''seniority_level'' = Some sl"
    and "lead ''tech_stack'' = Some ts" and "lead ''company_size'' = Some cs"
    and "map_of (weights self) ''job_title'' = Some wj"
    and "map_of (weights self) ''tech_stack'' = Some wt"
    and "map_of (weights self) ''buying_intent'' = Some wi"
    and "0 \<le> u_tech d" and "u_tech d \<le> 1"
  shows "\<exists>out j t b s. score_single_lead self lead d = Inr out
     \<and> out ''job_title_score'' = Some (Num j) \<and> 0 \<le> j \<and> j \<le> 100
     \<and> out ''tech_stack_score'' = Some (Num t) \<and> 0 \<le> t \<and> t \<le> 100
     \<and> out ''buying_intent_score'' = Some (Num b) \<and> 0 \<le> b \<and> b \<le> 100
     \<and> out ''lead_score'' = Some (Num s) \<and> 0 \<le> s \<and> s \<le> 100
     \<and> (jc \<notin> set [''decision_maker'', ''executive'', ''management'', ''technical'', ''other'']
          \<longrightarrow> score_job_title jc sl (u_job d) = score_job_title ''other'' sl (u_job d))
     \<and> (cs \<notin> set [''Enterprise'', ''Large'', ''Medium'', ''Small'', ''Startup'']
          \<longrightarrow> dict_get size_multipliers cs 1 = 1)"
proof -
  obtain b0 where b0: "score_buying_intent lead (u_market d) (u_noise d) = Inr b0"
    and b0_lo: "0 \<le> b0" and b0_hi: "b0 \<le> 100"
    using score_buying_intent_Inr [OF assms(1) assms(4) assms(2)] by blast
  obtain out where o: "score_single_lead self lead d = Inr out"
    and oj: "out ''job_title_score'' = Some (Num (round1 (score_job_title jc sl (u_job d))))"
    and ot: "out ''tech_stack_score'' = Some (Num (round1 (score_tech_stack ts (u_tech d))))"
    and ob: "out ''buying_intent_score'' = Some (Num (round1 b0))"
    and os: "out ''lead_score'' =
         Some (Num (round1 (clamp ((score_job_title jc sl (u_job d) * wj
                                    + score_tech_stack ts (u_tech d) * wt + b0 * wi)
                                   * dict_get size_multipliers cs 1))))"
    using score_single_lead_fields [OF assms(1-7) b0] by blast
  have t: "0 \<le> score_tech_stack ts (u_tech d)" "score_tech_stack ts (u_tech d) \<le> 100"
    using score_tech_stack_bounds [OF assms(8) assms(9), of ts] by simp_all
  have j: "0 \<le> round1 (score_job_title jc sl (u_job d)) \<and> round1 (score_job_title jc sl (u_job d)) \<le> 100"
    using round1_bounds score_job_title_bounds by blast
  have t': "0 \<le> round1 (score_tech_stack ts (u_tech d)) \<and> round1 (score_tech_stack ts (u_tech d)) \<le> 100"
    using round1_bounds t by blast
  have b': "0 \<le> round1 b0 \<and> round1 b0 \<le> 100"
    using round1_bounds b0_lo b0_hi by blast
  have fb1: "jc \<notin> set [''decision_maker'', ''executive'', ''management'', ''technical'', ''other'']
          \<longrightarrow> score_job_title jc sl (u_job d) = score_job_title ''other'' sl (u_job d)"
    by (simp add: score_job_title_def dict_get_def job_title_scores_def)
  have fb2: "cs \<notin> set [''Enterprise'', ''Large'', ''Medium'', ''Small'', ''Startup'']
          \<longrightarrow> dict_get size_multipliers cs 1 = 1"
    by (simp add: dict_get_def size_multipliers_def)
  show ?thesis
    using o oj ot ob os j t' b' round1_clamp_bounds fb1 fb2 by blast
qed

theorem scoring_total_and_bounded_witness:
  "\<exists>out j t b s.
     score_single_lead init_engine
       [''job_category'' \<mapsto> ''wizard'', ''seniority_level'' \<mapsto> ''Guru'',
        ''tech_stack'' \<mapsto> ''Go, Kubernetes, Docker'', ''company_size'' \<mapsto> ''Huge'']
       \<lparr>u_job = 1/3, u_tech = 1/7, u_market = 1/2, u_noise = 1/4\<rparr> = Inr out
     \<and> out ''job_title_score'' = Some (Num j) \<and> 0 \<le> j \<and> j \<le> 100
     \<and> out ''tech_stack_score'' = Some (Num t) \<and> 0 \<le> t \<and> t \<le> 100
     \<and> out ''buying_intent_score'' = Some (Num b) \<and> 0 \<le> b \<and> b \<le> 100
     \<and> out ''lead_score'' = Some (Num s) \<and> 0 \<le> s \<and> s \<le> 100
     \<and> score_job_title ''wizard'' ''Guru'' (1/3) = score_job_title ''other'' ''Guru'' (1/3)
     \<and> dict_get size_multipliers ''Huge'' 1 = (1::real)"
  using scoring_total_and_bounded
    [of "[''job_category'' \<mapsto> ''wizard'', ''seniority_level'' \<mapsto> ''Guru'',
          ''tech_stack'' \<mapsto> ''Go, Kubernetes, Docker'', ''company_size'' \<mapsto> ''Huge'']"
        "''wizard''" "''Guru''" "''Go, Kubernetes, Docker''" "''Huge''"
        init_engine "4/10" "3/10" "3/10"
        "\<lparr>u_job = 1/3, u_tech = 1/7, u_market = 1/2, u_noise = 1/4\<rparr>"]
  by (simp add: init_engine_def)

subsection \<open>The sample row\<close>

lemma sample_sub_scores:
  "score_job_title ''technical'' ''Senior'' (1/3) = 215/3"
  "score_tech_stack ''Go, Kubernetes, Docker'' (1/7) = 510/7"
  "dict_get size_multipliers ''Large'' 1 = (11/10 :: real)"
  "clamp ((215/3 * (4/10) + 510/7 * (3/10) + 55/2 * (3/10)) * (11/10)) = 54307/840"
  "round1 (215/3) = 717/10" "round1 (510/7) = 729/10" "round1 (55/2) = 55/2"
  "round1 (54307/840) = 647/10"
  by code_simp+

lemma sample_buying_intent: "score_buying_intent sample_lead (1/2) (1/4) = Inr (55/2)"
  by code_simp

lemma sample_explanation:
  "generate_explanation (215/3) (510/7) (55/2) (54307/840) =
     Scored_text ''Technical leader/manager, good tech alignment, weak buying signals'' (54307/840)"
  by (simp add: generate_explanation_def)

lemma sample_row:
  "\<exists>out. score_single_lead init_engine sample_lead sample_draws = Inr out
     \<and> out ''job_title_score'' = Some (Num (717/10))
     \<and> out ''tech_stack_score'' = Some (Num (729/10))
     \<and> out ''buying_intent_score'' = Some (Num (55/2))
     \<and> out ''lead_score'' = Some (Num (647/10))
     \<and> out ''score_explanation'' =
         Some (Scored_text ''Technical leader/manager, good tech alignment, weak buying signals''
                 (54307/840))
     \<and> (\<forall>k. k \<notin> set [''job_title_score'', ''tech_stack_score'', ''buying_intent_score'',
                      ''lead_score'', ''score_explanation'']
            \<longrightarrow> out k = map_option Str (sample_lead k))"
proof -
  have b: "score_buying_intent sample_lead (u_market sample_draws) (u_noise sample_draws) = Inr (55/2)"
    using sample_buying_intent by (simp add: sample_draws_def)
  have "\<exists>out. score_single_lead init_engine sample_lead sample_draws = Inr out
     \<and> out ''job_title_score'' = Some (Num (round1 (score_job_title ''technical'' ''Senior'' (u_job sample_draws))))
     \<and> out ''tech_stack_score'' = Some (Num (round1 (score_tech_stack ''Go, Kubernetes, Docker'' (u_tech sample_draws))))
     \<and> out ''buying_intent_score'' = Some (Num (round1 (55/2)))
     \<and> out ''lead_score'' =
         Some (Num (round1 (clamp ((score_job_title ''technical'' ''Senior'' (u_job sample_draws) * (4/10)
                                    + score_tech_stack ''Go, Kubernetes, Docker'' (u_tech sample_draws) * (3/10) + 55/2 * (3/10))
                                   * dict_get size_multipliers ''Large'' 1))))
     \<and> out ''score_explanation'' =
         Some (generate_explanation (score_job_title ''technical'' ''Senior'' (u_job sample_draws))
                 (score_tech_stack ''Go, Kubernetes, Docker'' (u_tech sample_draws)) (55/2)
                 (clamp ((score_job_title ''technical'' ''Senior'' (u_job sample_draws) * (4/10)
                           + score_tech_stack ''Go, Kubernetes, Docker'' (u_tech sample_draws) * (3/10) + 55/2 * (3/10))
                          * dict_get size_multipliers ''Large'' 1)))
     \<and> (\<forall>k. k \<notin> set [''job_title_score'', ''tech_stack_score'', ''buying_intent_score'',
                      ''lead_score'', ''score_explanation'']
            \<longrightarrow> out k = map_option Str (sample_lead k))"
    by (rule score_single_lead_fields [OF _ _ _ _ _ _ _ b])
       (simp_all add: sample_lead_def init_engine_def)
  then show ?thesis
    by (simp only: sample_draws_def score_draws.simps sample_sub_scores sample_explanation)
qed

subsection \<open>Final score\<close>

text \<open>
  C2, as the specification states it, fails on the stored fields. For the sample row with
  the default weights, the stored sub-scores are 71.7, 72.9 and 27.5 and the stored
  \<open>lead_score\<close> is 64.7, while the formula gives 64.68 on the stored sub-scores and
  64.651... on the sub-scores before rounding.
\<close>

theorem lead_score_formula_counterexample:
  "weights init_engine = [(''job_title'', 4/10), (''tech_stack'', 3/10), (''buying_intent'', 3/10)]
   \<and> sample_lead ''company_size'' = Some ''Large''
   \<and> field (score_single_lead init_engine sample_lead sample_draws) ''job_title_score''
       = Some (Num (717/10))
   \<and> field (score_single_lead init_engine sample_lead sample_draws) ''tech_stack_score''
       = Some (Num (729/10))
   \<and> field (score_single_lead init_engine sample_lead sample_draws) ''buying_intent_score''
       = Some (Num (55/2))
   \<and> field (score_single_lead init_engine sample_lead sample_draws) ''lead_score''
       = Some (Num (647/10))
   \<and> clamp ((717/10 * (4/10) + 729/10 * (3/10) + 55/2 * (3/10)) * (11/10)) = 1617/25
   \<and> (647/10 :: real) \<noteq> 1617/25
   \<and> score_job_title ''technical'' ''Senior'' (u_job sample_draws) = 215/3
   \<and> score_tech_stack ''Go, Kubernetes, Docker'' (u_tech sample_draws) = 510/7
   \<and> score_buying_intent sample_lead (u_market sample_draws) (u_noise sample_draws) = Inr (55/2)
   \<and> clamp ((215/3 * (4/10) + 510/7 * (3/10) + 55/2 * (3/10)) * (11/10)) = 54307/840
   \<and> (647/10 :: real) \<noteq> 54307/840"
proof -
  obtain out where "score_single_lead init_engine sample_lead sample_draws = Inr out"
    and "out ''job_title_score'' = Some (Num (717/10))"
    and "out ''tech_stack_score'' = Some (Num (729/10))"
    and "out ''buying_intent_score'' = Some (Num (55/2))"
    and "out ''lead_score'' = Some (Num (647/10))"
    using sample_row by blast
  moreover have "clamp ((717/10 * (4/10) + 729/10 * (3/10) + 55/2 * (3/10)) * (11/10)) = 1617/25"
    by (simp add: clamp_def)
  ultimately show ?thesis
    using sample_sub_scores sample_buying_intent
    by (simp add: field_def init_engine_def sample_lead_def sample_draws_def)
qed

text \<open>
  C2 (amended): for a lead that has the four columns scoring reads and weights that hold
  the three keys, the stored \<open>lead_score\<close> is the weighted sum of the three sub-scores
  as computed (before their rounding), times the size multiplier (Enterprise 1.2, Large
  1.1, Medium 1.0, Small 0.9, Startup 0.8, anything else 1.0), clamped into [0, 100] and
  then rounded to one decimal place.
\<close>

theorem lead_score_rounded_formula:
  assumes "lead ''job_category'' = Some jc" and "lead ''seniority_level'' = Some sl"
    and "lead ''tech_stack'' = Some ts" and "lead ''company_size'' = Some cs"
    and "map_of (weights self) ''job_title'' = Some w_job"
    and "map_of (weights self) ''tech_stack'' = Some w_tech"
    and "map_of (weights self) ''buying_intent'' = Some w_intent"
  shows "\<exists>out b. score_single_lead self lead d = Inr out
     \<and> score_buying_intent lead (u_market d) (u_noise d) = Inr b
     \<and> out ''lead_score'' =
         Some (Num (round1 (max 0 (min 100
           ((score_job_title jc sl (u_job d) * w_job
              + score_tech_stack ts (u_tech d) * w_tech + b * w_intent)
            * (if cs = ''Enterprise'' then 12/10 else if cs = ''Large'' then 11/10
               else if cs = ''Medium'' then 1 else if cs = ''Small'' then 9/10
               else if cs = ''Startup'' then 8/10 else 1))))))"
proof -
  obtain b where b: "score_buying_intent lead (u_market d) (u_noise d) = Inr b"
    using score_buying_intent_Inr [OF assms(1) assms(4) assms(2)] by blast
  have m: "dict_get size_multipliers cs 1 =
      (if cs = ''Enterprise'' then 12/10 else if cs = ''Large'' then 11/10
       else if cs = ''Medium'' then 1 else if cs = ''Small'' then 9/10
       else if cs = ''Startup'' then 8/10 else (1::real))"
    by (simp add: dict_get_def size_multipliers_def)
  show ?thesis
    using score_single_lead_fields [OF assms b] b unfolding m clamp_def by blast
qed

theorem lead_score_rounded_formula_witness:
  "\<exists>out b. score_single_lead init_engine sample_lead sample_draws = Inr out
     \<and> score_buying_intent sample_lead (1/2) (1/4) = Inr b
     \<and> out ''lead_score'' =
         Some (Num (round1 (max 0 (min 100
           ((score_job_title ''technical'' ''Senior'' (1/3) * (4/10)
              + score_tech_stack ''Go, Kubernetes, Docker'' (1/7) * (3/10) + b * (3/10))
            * (11/10))))))"
  using lead_score_rounded_formula
    [of sample_lead "''technical''" "''Senior''" "''Go, Kubernetes, Docker''" "''Large''"
        init_engine "4/10" "3/10" "3/10" sample_draws]
  by (simp add: sample_lead_def init_engine_def sample_draws_def)

subsection \<open>Frame of scoring\<close>

lemma score_single_lead_shape:
  assumes "score_single_lead self lead d = Inr out"
  shows "\<exists>v1 v2 v3 v4 v5. out = (to_dict lead)
     (''job_title_score'' \<mapsto> v1, ''tech_stack_score'' \<mapsto> v2, ''buying_intent_score'' \<mapsto> v3,
      ''lead_score'' \<mapsto> v4, ''score_explanation'' \<mapsto> v5)"
  using assms unfolding score_single_lead_def Let_def
  by (auto simp: bind_err_def split: sum.splits) (intro exI, rule refl)

text \<open>
  C9: whenever scoring returns a row, the row is the input row with the five score
  columns set: each of the ten enrichment columns holds the input's value, every column
  other than the five is the input's, and the columns are the input's and the five.
\<close>

theorem scoring_keeps_enrichment_fields:
  assumes "score_single_lead self lead d = Inr out"
  shows "(\<forall>k. k \<in> set [''name'', ''email'', ''company_domain'', ''job_title'', ''seniority_level'',
                        ''linkedin_url'', ''tech_stack'', ''company_size'', ''phone'',
                        ''job_category'']
            \<longrightarrow> out k = map_option Str (lead k))
     \<and> (\<forall>k. k \<notin> set [''job_title_score'', ''tech_stack_score'', ''buying_intent_score'',
                      ''lead_score'', ''score_explanation'']
            \<longrightarrow> out k = map_option Str (lead k))
     \<and> dom out = dom lead \<union> set [''job_title_score'', ''tech_stack_score'',
                      ''buying_intent_score'', ''lead_score'', ''score_explanation'']"
proof -
  obtain v1 v2 v3 v4 v5 where out: "out = (to_dict lead)
     (''job_title_score'' \<mapsto> v1, ''tech_stack_score'' \<mapsto> v2, ''buying_intent_score'' \<mapsto> v3,
      ''lead_score'' \<mapsto> v4, ''score_explanation'' \<mapsto> v5)"
    using score_single_lead_shape [OF assms] by blast
  have d: "dom (to_dict lead) = dom lead"
    by (auto simp: to_dict_def dom_def)
  have a: "\<forall>k. k \<notin> set [''job_title_score'', ''tech_stack_score'', ''buying_intent_score'',
                      ''lead_score'', ''score_explanation'']
            \<longrightarrow> out k = map_option Str (lead k)"
    by (simp add: out to_dict_def)
  have b: "\<forall>k. k \<in> set [''name'', ''email'', ''company_domain'', ''job_title'', ''seniority_level'',
                        ''linkedin_url'', ''tech_stack'', ''company_size'', ''phone'',
                        ''job_category'']
            \<longrightarrow> out k = map_option Str (lead k)"
    by (simp add: out to_dict_def)
  have c: "dom out = dom lead \<union> set [''job_title_score'', ''tech_stack_score'',
                      ''buying_intent_score'', ''lead_score'', ''score_explanation'']"
    unfolding out by (simp add: d insert_commute)
  show ?thesis using a b c by blast
qed

theorem scoring_keeps_enrichment_fields_witness:
  "map (field (score_single_lead init_engine sample_lead sample_draws))
     [''name'', ''email'', ''company_domain'', ''job_title'', ''seniority_level'',
      ''linkedin_url'', ''tech_stack'', ''company_size'', ''phone'', ''job_category'']
   = [Some (Str ''John Smith''), Some (Str ''john.smith@techcorp.com''),
      Some (Str ''techcorp.com''), Some (Str ''Lead Developer''), Some (Str ''Senior''),
      Some (Str ''https://linkedin.com/in/john-smith''), Some (Str ''Go, Kubernetes, Docker''),
      Some (Str ''Large''), Some (Str ''+1 (415) 555-2671''), Some (Str ''technical'')]"
proof -
  obtain out where o: "score_single_lead init_engine sample_lead sample_draws = Inr out"
    using sample_row by blast
  from scoring_keeps_enrichment_fields [OF o]
  have "\<forall>k. k \<in> set [''name'', ''email'', ''company_domain'', ''job_title'', ''seniority_level'',
                        ''linkedin_url'', ''tech_stack'', ''company_size'', ''phone'',
                        ''job_category'']
            \<longrightarrow> out k = map_option Str (sample_lead k)"
    by blast
  then have "map out [''name'', ''email'', ''company_domain'', ''job_title'', ''seniority_level'',
      ''linkedin_url'', ''tech_stack'', ''company_size'', ''phone'', ''job_category'']
    = map (\<lambda>k. map_option Str (sample_lead k))
       [''name'', ''email'', ''company_domain'', ''job_title'', ''seniority_level'',
        ''linkedin_url'', ''tech_stack'', ''company_size'', ''phone'', ''job_category'']"
    by simp
  also have "\<dots> = [Some (Str ''John Smith''), Some (Str ''john.smith@techcorp.com''),
      Some (Str ''techcorp.com''), Some (Str ''Lead Developer''), Some (Str ''Senior''),
      Some (Str ''https://linkedin.com/in/john-smith''), Some (Str ''Go, Kubernetes, Docker''),
      Some (Str ''Large''), Some (Str ''+1 (415) 555-2671''), Some (Str ''technical'')]"
    by (simp add: sample_lead_def)
  finally show ?thesis
    by (simp add: o field_def)
qed

subsection \<open>Rounding of the stored scores\<close>

lemma threshold_row:
  "\<exists>out. score_single_lead init_engine
       (sample_lead(''job_category'' \<mapsto> ''executive'', ''seniority_level'' \<mapsto> ''Mid-level''))
       (sample_draws\<lparr>u_job := 124/375\<rparr>) = Inr out
     \<and> out ''job_title_score'' = Some (Num 85)
     \<and> out ''lead_score'' = Some (Num (151/2))
     \<and> out ''score_explanation'' =
         Some (Scored_text ''Technical leader/manager, good tech alignment, weak buying signals''
                 (2640759/35000))"
proof -
  let ?lead = "sample_lead(''job_category'' \<mapsto> ''executive'', ''seniority_level'' \<mapsto> ''Mid-level'')"
  let ?d = "sample_draws\<lparr>u_job := 124/375\<rparr>"
  have v: "score_job_title ''executive'' ''Mid-level'' (124/375) = 2124/25"
    "round1 (2124/25) = 85"
    "clamp ((2124/25 * (4/10) + 510/7 * (3/10) + 85/2 * (3/10)) * (11/10)) = 2640759/35000"
    "round1 (2640759/35000) = 151/2"
    by code_simp+
  have "score_buying_intent ?lead (1/2) (1/4) = Inr (85/2)"
    by code_simp
  then have b: "score_buying_intent ?lead (u_market ?d) (u_noise ?d) = Inr (85/2)"
    by (simp add: sample_draws_def)
  have e: "generate_explanation (2124/25) (510/7) (85/2) (2640759/35000) =
      Scored_text ''Technical leader/manager, good tech alignment, weak buying signals''
        (2640759/35000)"
    by (simp add: generate_explanation_def)
  have "\<exists>out. score_single_lead init_engine ?lead ?d = Inr out
     \<and> out ''job_title_score'' = Some (Num (round1 (score_job_title ''executive'' ''Mid-level'' (u_job ?d))))
     \<and> out ''tech_stack_score'' = Some (Num (round1 (score_tech_stack ''Go, Kubernetes, Docker'' (u_tech ?d))))
     \<and> out ''buying_intent_score'' = Some (Num (round1 (85/2)))
     \<and> out ''lead_score'' =
         Some (Num (round1 (clamp ((score_job_title ''executive'' ''Mid-level'' (u_job ?d) * (4/10)
                                    + score_tech_stack ''Go, Kubernetes, Docker'' (u_tech ?d) * (3/10) + 85/2 * (3/10))
                                   * dict_get size_multipliers ''Large'' 1))))
     \<and> out ''score_explanation'' =
         Some (generate_explanation (score_job_title ''executive'' ''Mid-level'' (u_job ?d))
                 (score_tech_stack ''Go, Kubernetes, Docker'' (u_tech ?d)) (85/2)
                 (clamp ((score_job_title ''executive'' ''Mid-level'' (u_job ?d) * (4/10)
                           + score_tech_stack ''Go, Kubernetes, Docker'' (u_tech ?d) * (3/10) + 85/2 * (3/10))
                          * dict_get size_multipliers ''Large'' 1)))
     \<and> (\<forall>k. k \<notin> set [''job_title_score'', ''tech_stack_score'', ''buying_intent_score'',
                      ''lead_score'', ''score_explanation'']
            \<longrightarrow> out k = map_option Str (?lead k))"
    by (rule score_single_lead_fields [OF _ _ _ _ _ _ _ b])
       (simp_all add: sample_lead_def init_engine_def)
  then obtain out where "score_single_lead init_engine ?lead ?d = Inr out"
    and "out ''job_title_score'' = Some (Num (round1 (score_job_title ''executive'' ''Mid-level'' (u_job ?d))))"
    and "out ''lead_score'' =
         Some (Num (round1 (clamp ((score_job_title ''executive'' ''Mid-level'' (u_job ?d) * (4/10)
                                    + score_tech_stack ''Go, Kubernetes, Docker'' (u_tech ?d) * (3/10) + 85/2 * (3/10))
                                   * dict_get size_multipliers ''Large'' 1))))"
    and "out ''score_explanation'' =
         Some (generate_explanation (score_job_title ''executive'' ''Mid-level'' (u_job ?d))
                 (score_tech_stack ''Go, Kubernetes, Docker'' (u_tech ?d)) (85/2)
                 (clamp ((score_job_title ''executive'' ''Mid-level'' (u_job ?d) * (4/10)
                           + score_tech_stack ''Go, Kubernetes, Docker'' (u_tech ?d) * (3/10) + 85/2 * (3/10))
                          * dict_get size_multipliers ''Large'' 1)))"
    by blast
  then show ?thesis
    by (simp only: sample_draws_def score_draws.simps sample_sub_scores v e) blast
qed

text \<open>
  C10: each of the four stored scores is the computed score rounded to one decimal place;
  the clauses of the explanation are chosen by the computed sub-scores, not the rounded
  ones, and the number the explanation embeds is the computed final score, not the rounded
  one. For the sample row the stored \<open>lead_score\<close> is 64.7 and the embedded number is
  54307/840 = 64.651...; and a job score of 84.96 is stored as 85.0 while the explanation
  has the clause for scores below 85.
\<close>

theorem stored_rounded_explanation_unrounded:
  assumes "lead ''job_category'' = Some jc" and "lead ''seniority_level'' = Some sl"
    and "lead ''tech_stack'' = Some ts" and "lead ''company_size'' = Some cs"
    and "map_of (weights self) ''job_title'' = Some w_job"
    and "map_of (weights self) ''tech_stack'' = Some w_tech"
    and "map_of (weights self) ''buying_intent'' = Some w_intent"
  shows "(\<exists>out b. score_single_lead self lead d = Inr out
     \<and> score_buying_intent lead (u_market d) (u_noise d) = Inr b
     \<and> out ''job_title_score'' = Some (Num (round1 (score_job_title jc sl (u_job d))))
     \<and> out ''tech_stack_score'' = Some (Num (round1 (score_tech_stack ts (u_tech d))))
     \<and> out ''buying_intent_score'' = Some (Num (round1 b))
     \<and> out ''lead_score'' =
         Some (Num (round1 (clamp ((score_job_title jc sl (u_job d) * w_job
                                    + score_tech_stack ts (u_tech d) * w_tech + b * w_intent)
                                   * dict_get size_multipliers cs 1))))
     \<and> out ''score_explanation'' =
         Some (Scored_text
           (join '', ''
              [if score_job_title jc sl (u_job d) \<ge> 85 then ''High-value decision maker''
               else if score_job_title jc sl (u_job d) \<ge> 70 then ''Technical leader/manager''
               else if score_job_title jc sl (u_job d) \<ge> 50 then ''Technical professional''
               else ''Lower relevance role'',
               if score_tech_stack ts (u_tech d) \<ge> 80 then ''excellent tech fit''
               else if score_tech_stack ts (u_tech d) \<ge> 60 then ''good tech alignment''
               else ''limited tech relevance'',
               if b \<ge> 75 then ''strong buying signals''
               else if b \<ge> 50 then ''moderate buying intent''
               else ''weak buying signals''])
           (clamp ((score_job_title jc sl (u_job d) * w_job
                     + score_tech_stack ts (u_tech d) * w_tech + b * w_intent)
                    * dict_get size_multipliers cs 1))))
   \<and> field (score_single_lead init_engine sample_lead sample_draws) ''lead_score''
        = Some (Num (647/10))
   \<and> field (score_single_lead init_engine sample_lead sample_draws) ''score_explanation''
        = Some (Scored_text ''Technical leader/manager, good tech alignment, weak buying signals''
                  (54307/840))
   \<and> (647/10 :: real) \<noteq> 54307/840
   \<and> field (score_single_lead init_engine
         (sample_lead(''job_category'' \<mapsto> ''executive'', ''seniority_level'' \<mapsto> ''Mid-level''))
         (sample_draws\<lparr>u_job := 124/375\<rparr>)) ''job_title_score'' = Some (Num 85)
   \<and> field (score_single_lead init_engine
         (sample_lead(''job_category'' \<mapsto> ''executive'', ''seniority_level'' \<mapsto> ''Mid-level''))
         (sample_draws\<lparr>u_job := 124/375\<rparr>)) ''score_explanation''
        = Some (Scored_text ''Technical leader/manager, good tech alignment, weak buying signals''
                  (2640759/35000))"
proof -
  obtain b where b: "score_buying_intent lead (u_market d) (u_noise d) = Inr b"
    using score_buying_intent_Inr [OF assms(1) assms(4) assms(2)] by blast
  have general: "\<exists>out b. score_single_lead self lead d = Inr out
     \<and> score_buying_intent lead (u_market d) (u_noise d) = Inr b
     \<and> out ''job_title_score'' = Some (Num (round1 (score_job_title jc sl (u_job d))))
     \<and> out ''tech_stack_score'' = Some (Num (round1 (score_tech_stack ts (u_tech d))))
     \<and> out ''buying_intent_score'' = Some (Num (round1 b))
     \<and> out ''lead_score'' =
         Some (Num (round1 (clamp ((score_job_title jc sl (u_job d) * w_job
                                    + score_tech_stack ts (u_tech d) * w_tech + b * w_intent)
                                   * dict_get size_multipliers cs 1))))
     \<and> out ''score_explanation'' =
         Some (generate_explanation (score_job_title jc sl (u_job d))
                 (score_tech_stack ts (u_tech d)) b
                 (clamp ((score_job_title jc sl (u_job d) * w_job
                           + score_tech_stack ts (u_tech d) * w_tech + b * w_intent)
                          * dict_get size_multipliers cs 1)))"
    using score_single_lead_fields [OF assms b] b by blast
  obtain o1 where o1: "score_single_lead init_engine sample_lead sample_draws = Inr o1"
    "o1 ''lead_score'' = Some (Num (647/10))"
    "o1 ''score_explanation'' =
         Some (Scored_text ''Technical leader/manager, good tech alignment, weak buying signals''
                 (54307/840))"
    using sample_row by blast
  obtain o2 where o2: "score_single_lead init_engine
       (sample_lead(''job_category'' \<mapsto> ''executive'', ''seniority_level'' \<mapsto> ''Mid-level''))
       (sample_draws\<lparr>u_job := 124/375\<rparr>) = Inr o2"
    "o2 ''job_title_score'' = Some (Num 85)"
    "o2 ''score_explanation'' =
         Some (Scored_text ''Technical leader/manager, good tech alignment, weak buying signals''
                 (2640759/35000))"
    using threshold_row by blast
  have examples: "field (score_single_lead init_engine sample_lead sample_draws) ''lead_score''
        = Some (Num (647/10))
   \<and> field (score_single_lead init_engine sample_lead sample_draws) ''score_explanation''
        = Some (Scored_text ''Technical leader/manager, good tech alignment, weak buying signals''
                  (54307/840))
   \<and> (647/10 :: real) \<noteq> 54307/840
   \<and> field (score_single_lead init_engine
         (sample_lead(''job_category'' \<mapsto> ''executive'', ''seniority_level'' \<mapsto> ''Mid-level''))
         (sample_draws\<lparr>u_job := 124/375\<rparr>)) ''job_title_score'' = Some (Num 85)
   \<and> field (score_single_lead init_engine
         (sample_lead(''job_category'' \<mapsto> ''executive'', ''seniority_level'' \<mapsto> ''Mid-level''))
         (sample_draws\<lparr>u_job := 124/375\<rparr>)) ''score_explanation''
        = Some (Scored_text ''Technical leader/manager, good tech alignment, weak buying signals''
                  (2640759/35000))"
    by (simp add: field_def o1 o2)
  show ?thesis
    using general examples unfolding generate_explanation_def Let_def by blast
qed

theorem stored_rounded_explanation_unrounded_witness:
  "\<exists>out. score_single_lead init_engine sample_lead sample_draws = Inr out
     \<and> out ''job_title_score'' = Some (Num (round1 (215/3)))
     \<and> out ''tech_stack_score'' = Some (Num (round1 (510/7)))
     \<and> out ''buying_intent_score'' = Some (Num (round1 (55/2)))
     \<and> out ''lead_score'' = Some (Num (round1 (54307/840)))
     \<and> out ''score_explanation'' =
         Some (Scored_text ''Technical leader/manager, good tech alignment, weak buying signals''
                 (54307/840))"
proof -
  have k: "sample_lead ''job_category'' = Some ''technical''"
    "sample_lead ''seniority_level'' = Some ''Senior''"
    "sample_lead ''tech_stack'' = Some ''Go, Kubernetes, Docker''"
    "sample_lead ''company_size'' = Some ''Large''"
    by (simp_all add: sample_lead_def)
  have w: "map_of (weights init_engine) ''job_title'' = Some (4/10)"
    "map_of (weights init_engine) ''tech_stack'' = Some (3/10)"
    "map_of (weights init_engine) ''buying_intent'' = Some (3/10)"
    by (simp_all add: init_engine_def)
  have b: "score_buying_intent sample_lead (u_market sample_draws) (u_noise sample_draws) = Inr (55/2)"
    using sample_buying_intent by (simp add: sample_draws_def)
  have u: "u_job sample_draws = 1/3" "u_tech sample_draws = 1/7"
    by (simp_all add: sample_draws_def)
  from stored_rounded_explanation_unrounded [OF k w, of sample_draws]
  obtain out b' where o: "score_single_lead init_engine sample_lead sample_draws = Inr out"
    and b': "score_buying_intent sample_lead (u_market sample_draws) (u_noise sample_draws) = Inr b'"
    and f: "out ''job_title_score'' =
        Some (Num (round1 (score_job_title ''technical'' ''Senior'' (u_job sample_draws))))"
      "out ''tech_stack_score'' =
        Some (Num (round1 (score_tech_stack ''Go, Kubernetes, Docker'' (u_tech sample_draws))))"
      "out ''buying_intent_score'' = Some (Num (round1 b'))"
      "out ''lead_score'' =
         Some (Num (round1 (clamp ((score_job_title ''technical'' ''Senior'' (u_job sample_draws) * (4/10)
                + score_tech_stack ''Go, Kubernetes, Docker'' (u_tech sample_draws) * (3/10)
                + b' * (3/10))
               * dict_get size_multipliers ''Large'' 1))))"
      "out ''score_explanation'' =
         Some (Scored_text
           (join '', ''
              [if score_job_title ''technical'' ''Senior'' (u_job sample_draws) \<ge> 85
               then ''High-value decision maker''
               else if score_job_title ''technical'' ''Senior'' (u_job sample_draws) \<ge> 70
               then ''Technical leader/manager''
               else if score_job_title ''technical'' ''Senior'' (u_job sample_draws) \<ge> 50
               then ''Technical professional''
               else ''Lower relevance role'',
               if score_tech_stack ''Go, Kubernetes, Docker'' (u_tech sample_draws) \<ge> 80
               then ''excellent tech fit''
               else if score_tech_stack ''Go, Kubernetes, Docker'' (u_tech sample_draws) \<ge> 60
               then ''good tech alignment''
               else ''limited tech relevance'',
               if b' \<ge> 75 then ''strong buying signals''
               else if b' \<ge> 50 then ''moderate buying intent''
               else ''weak buying signals''])
           (clamp ((score_job_title ''technical'' ''Senior'' (u_job sample_draws) * (4/10)
                + score_tech_stack ''Go, Kubernetes, Docker'' (u_tech sample_draws) * (3/10)
                + b' * (3/10))
               * dict_get size_multipliers ''Large'' 1)))"
    by blast
  from b b' have bv: "b' = 55/2" by simp
  note g = f [unfolded bv u sample_sub_scores]
  show ?thesis
    by (rule exI [of _ out]) (simp add: o g sample_sub_scores)
qed

subsection \<open>Weights\<close>





subsection \<open>Enrichment of incomplete tables\<close>

lemma determine_job_category_cases:
  "determine_job_category email name u \<in>
     {''technical'', ''management'', ''executive'', ''decision_maker'', ''other''}"
  by (simp add: determine_job_category_def Let_def choices_5)

lemma job_titles_getitem:
  "c \<in> {''technical'', ''management'', ''executive'', ''decision_maker'', ''other''}
    \<Longrightarrow> \<exists>titles. getitem (map_of job_titles) c = Inr titles"
  by (auto simp: getitem_def job_titles_def)

lemma absent_column_None:
  "absent_column cols = None \<longleftrightarrow>
     ''name'' \<in> set cols \<and> ''email'' \<in> set cols \<and> ''company_domain'' \<in> set cols"
  by (auto simp: absent_column_def required_fields_def)

lemma absent_column_Some:
  "absent_column cols = Some f \<longleftrightarrow>
     (''name'' \<notin> set cols \<and> f = ''name'')
     \<or> (''name'' \<in> set cols \<and> ''email'' \<notin> set cols \<and> f = ''email'')
     \<or> (''name'' \<in> set cols \<and> ''email'' \<in> set cols \<and> ''company_domain'' \<notin> set cols
         \<and> f = ''company_domain'')"
  by (auto simp: absent_column_def required_fields_def)

lemma not_NaN_iff: "x \<noteq> NaN \<longleftrightarrow> (\<exists>s. x = Text s)"
  by (cases x) simp_all

lemma text_row_iff:
  "text_row row \<longleftrightarrow>
     (\<exists>n e c. row ''name'' = Text n \<and> row ''email'' = Text e \<and> row ''company_domain'' = Text c)"
  by (simp add: text_row_def required_fields_def not_NaN_iff)

lemma enrich_single_lead_absent:
  assumes "absent_column cols = Some f"
  shows "enrich_single_lead cols row d = Inl (KeyError f)"
  using assms unfolding absent_column_Some
  by (auto simp: enrich_single_lead_def series_getitem_def bind_err_def)

lemma enrich_single_lead_text:
  assumes "absent_column cols = None" and "text_row row"
  shows "\<exists>out. enrich_single_lead cols row d = Inr out"
proof -
  from assms(1) have c: "''name'' \<in> set cols" "''email'' \<in> set cols" "''company_domain'' \<in> set cols"
    unfolding absent_column_None by simp_all
  from assms(2) obtain n e c where k: "row ''name'' = Text n" "row ''email'' = Text e"
    "row ''company_domain'' = Text c"
    unfolding text_row_iff by blast
  obtain titles where
    t: "getitem (map_of job_titles) (determine_job_category e n (u_category d)) = Inr titles"
    using job_titles_getitem [OF determine_job_category_cases] by blast
  show ?thesis
    by (simp add: enrich_single_lead_def series_getitem_def str_receiver_def bind_err_def c k t
        Let_def)
qed

lemma enrich_single_lead_nan:
  assumes "absent_column cols = None" and "\<not> text_row row"
  shows "enrich_single_lead cols row d = Inl (AttributeError ''lower'')"
proof -
  from assms(1) have c: "''name'' \<in> set cols" "''email'' \<in> set cols" "''company_domain'' \<in> set cols"
    unfolding absent_column_None by simp_all
  show ?thesis
  proof (cases "row ''email''")
    case NaN
    then show ?thesis
      by (simp add: enrich_single_lead_def series_getitem_def str_receiver_def bind_err_def c)
  next
    case e: (Text e)
    show ?thesis
    proof (cases "row ''name''")
      case NaN
      with e show ?thesis
        by (simp add: enrich_single_lead_def series_getitem_def str_receiver_def bind_err_def c)
    next
      case n: (Text n)
      from assms(2) e n have d: "row ''company_domain'' = NaN"
        unfolding text_row_iff by (cases "row ''company_domain''") simp_all
      obtain titles where
        t: "getitem (map_of job_titles) (determine_job_category e n (u_category d)) = Inr titles"
        using job_titles_getitem [OF determine_job_category_cases] by blast
      show ?thesis
        by (simp add: enrich_single_lead_def series_getitem_def str_receiver_def bind_err_def
            c e n d t Let_def)
    qed
  qed
qed

lemma enrich_rows_absent:
  assumes "absent_column cols = Some f" and "rws \<noteq> []"
  shows "enrich_rows rnd i cols rws = Inl (KeyError f)"
  using assms(2)
  by (cases rws) (simp_all add: enrich_single_lead_absent [OF assms(1)] bind_err_def)

lemma enrich_rows_nan:
  assumes "absent_column cols = None" and "\<forall>r\<in>set good. text_row r" and "\<not> text_row bad"
  shows "enrich_rows rnd i cols (good @ bad # rest) = Inl (AttributeError ''lower'')"
  using assms(2)
proof (induction good arbitrary: i)
  case Nil
  show ?case
    by (simp add: enrich_single_lead_nan [OF assms(1) assms(3)] bind_err_def)
next
  case (Cons r good)
  from Cons.prems have r: "text_row r" and g: "\<forall>r\<in>set good. text_row r"
    by simp_all
  obtain out where "enrich_single_lead cols r (rnd i) = Inr out"
    using enrich_single_lead_text [OF assms(1) r] by blast
  with Cons.IH [OF g] show ?case by (simp add: bind_err_def)
qed

lemma sample_text_rows:
  "text_row (series [(''name'', Text ''John Smith''), (''email'', Text ''john.smith@techcorp.com''),
                     (''company_domain'', Text ''techcorp.com'')])"
  "\<not> text_row (series [(''name'', Text ''Sarah Johnson''),
                       (''email'', Text ''sarah.j@innovatesoft.io''), (''company_domain'', NaN)])"
  "\<not> text_row (series [(''name'', Text ''Sarah Johnson''), (''email'', NaN),
                       (''company_domain'', Text ''innovatesoft.io'')])"
  by (simp_all add: text_row_def required_fields_def series_def)

text \<open>
  C3, as the specification states it, fails. Every row of a frame has all the frame's
  columns, so the row that misses a field is a row with an empty cell. In a table with the
  three columns whose second row has an empty \<open>company_domain\<close> cell, \<open>enrich_leads\<close>
  stops with the \<open>AttributeError\<close> of \<open>NaN.lower()\<close>, which names no field, and not with
  an error naming \<open>company_domain\<close>.
\<close>

theorem enrich_empty_cell_counterexample:
  "enrich_leads
     \<lparr>columns = [''name'', ''email'', ''company_domain''],
      rows =
        [series [(''name'', Text ''John Smith''), (''email'', Text ''john.smith@techcorp.com''),
                 (''company_domain'', Text ''techcorp.com'')],
         series [(''name'', Text ''Sarah Johnson''),
                 (''email'', Text ''sarah.j@innovatesoft.io''), (''company_domain'', NaN)],
         series [(''name'', Text ''Michael Chen''), (''email'', Text ''m.chen@dataworks.net''),
                 (''company_domain'', Text ''dataworks.net'')]]\<rparr>
     sample_enrich_draws
   = Inl (AttributeError ''lower'')
   \<and> AttributeError ''lower'' \<noteq> KeyError ''company_domain''"
proof -
  have a: "absent_column [''name'', ''email'', ''company_domain''] = None"
    by (simp add: absent_column_None)
  have g: "\<forall>r\<in>set [series [(''name'', Text ''John Smith''),
                             (''email'', Text ''john.smith@techcorp.com''),
                             (''company_domain'', Text ''techcorp.com'')]]. text_row r"
    using sample_text_rows(1) by simp
  show ?thesis
    using enrich_rows_nan [OF a g sample_text_rows(2), of sample_enrich_draws 0
        "[series [(''name'', Text ''Michael Chen''), (''email'', Text ''m.chen@dataworks.net''),
                  (''company_domain'', Text ''dataworks.net'')]]"]
    by (simp add: enrich_leads_def)
qed

text \<open>
  C3 (amended): when the table has at least one row and lacks a required column,
  \<open>enrich_leads\<close> raises \<open>KeyError(f)\<close>, the specification's \<open>MissingFieldError(f)\<close>, for
  the first column \<open>f\<close> it lacks in the order name, email, company_domain, and returns
  no rows at all; a table that lacks only \<open>company_domain\<close> fails with that name. When
  the table has the three columns and a row has an empty cell in one of them, the call
  also stops at the first such row and returns no rows at all, whatever rows come after
  it, but with the \<open>AttributeError\<close> of \<open>.lower()\<close>, which names no field.
\<close>

theorem enrich_aborts_batch:
  "(rows df \<noteq> [] \<and> (\<exists>k\<in>set [''name'', ''email'', ''company_domain'']. k \<notin> set (columns df))
      \<longrightarrow> (\<exists>f. absent_column (columns df) = Some f
            \<and> f \<in> set [''name'', ''email'', ''company_domain''] \<and> f \<notin> set (columns df)
            \<and> enrich_leads df rnd = Inl (KeyError f)))
   \<and> (rows df \<noteq> [] \<and> ''name'' \<in> set (columns df) \<and> ''email'' \<in> set (columns df)
        \<and> ''company_domain'' \<notin> set (columns df)
      \<longrightarrow> enrich_leads df rnd = Inl (KeyError ''company_domain''))
   \<and> ((\<forall>k\<in>set [''name'', ''email'', ''company_domain'']. k \<in> set (columns df))
        \<and> rows df = good @ bad # rest \<and> (\<forall>r\<in>set good. text_row r) \<and> \<not> text_row bad
      \<longrightarrow> enrich_leads df rnd = Inl (AttributeError ''lower''))"
proof (intro conjI impI)
  assume h: "rows df \<noteq> [] \<and> (\<exists>k\<in>set [''name'', ''email'', ''company_domain'']. k \<notin> set (columns df))"
  then have "absent_column (columns df) \<noteq> None"
    unfolding absent_column_None by auto
  then obtain f where f: "absent_column (columns df) = Some f" by auto
  have m: "f \<in> set [''name'', ''email'', ''company_domain''] \<and> f \<notin> set (columns df)"
    using f [unfolded absent_column_Some] by (elim disjE conjE) simp_all
  have "enrich_leads df rnd = Inl (KeyError f)"
    using enrich_rows_absent [OF f] h by (simp add: enrich_leads_def)
  with f m show "\<exists>f. absent_column (columns df) = Some f
            \<and> f \<in> set [''name'', ''email'', ''company_domain''] \<and> f \<notin> set (columns df)
            \<and> enrich_leads df rnd = Inl (KeyError f)"
    by blast
next
  assume h: "rows df \<noteq> [] \<and> ''name'' \<in> set (columns df) \<and> ''email'' \<in> set (columns df)
        \<and> ''company_domain'' \<notin> set (columns df)"
  then have f: "absent_column (columns df) = Some ''company_domain''"
    by (simp add: absent_column_Some)
  show "enrich_leads df rnd = Inl (KeyError ''company_domain'')"
    using enrich_rows_absent [OF f] h by (simp add: enrich_leads_def)
next
  assume h: "(\<forall>k\<in>set [''name'', ''email'', ''company_domain'']. k \<in> set (columns df))
        \<and> rows df = good @ bad # rest \<and> (\<forall>r\<in>set good. text_row r) \<and> \<not> text_row bad"
  then have a: "absent_column (columns df) = None"
    by (simp add: absent_column_None)
  from h have g: "\<forall>r\<in>set good. text_row r" and b: "\<not> text_row bad"
    and r: "rows df = good @ bad # rest"
    by simp_all
  show "enrich_leads df rnd = Inl (AttributeError ''lower'')"
    using enrich_rows_nan [OF a g b] r by (simp add: enrich_leads_def)
qed

theorem enrich_aborts_batch_witness:
  "enrich_leads
     \<lparr>columns = [''name'', ''email''],
      rows =
        [series [(''name'', Text ''John Smith''), (''email'', Text ''john.smith@techcorp.com'')],
         series [(''name'', Text ''Michael Chen''), (''email'', Text ''m.chen@dataworks.net'')]]\<rparr>
     sample_enrich_draws
   = Inl (KeyError ''company_domain'')
   \<and> enrich_leads
     \<lparr>columns = [''company_domain''],
      rows = [series [(''company_domain'', Text ''techcorp.com'')]]\<rparr>
     sample_enrich_draws
   = Inl (KeyError ''name'')
   \<and> enrich_leads
     \<lparr>columns = [''name'', ''email'', ''company_domain''],
      rows =
        [series [(''name'', Text ''John Smith''), (''email'', Text ''john.smith@techcorp.com''),
                 (''company_domain'', Text ''techcorp.com'')],
         series [(''name'', Text ''Sarah Johnson''), (''email'', NaN),
                 (''company_domain'', Text ''innovatesoft.io'')]]\<rparr>
     sample_enrich_draws
   = Inl (AttributeError ''lower'')"
proof -
  let ?df1 = "\<lparr>columns = [''name'', ''email''],
      rows =
        [series [(''name'', Text ''John Smith''), (''email'', Text ''john.smith@techcorp.com'')],
         series [(''name'', Text ''Michael Chen''), (''email'', Text ''m.chen@dataworks.net'')]]\<rparr>"
  let ?df2 = "\<lparr>columns = [''company_domain''],
      rows = [series [(''company_domain'', Text ''techcorp.com'')]]\<rparr>"
  let ?r1 = "series [(''name'', Text ''John Smith''), (''email'', Text ''john.smith@techcorp.com''),
                 (''company_domain'', Text ''techcorp.com'')]"
  let ?r2 = "series [(''name'', Text ''Sarah Johnson''), (''email'', NaN),
                 (''company_domain'', Text ''innovatesoft.io'')]"
  let ?df3 = "\<lparr>columns = [''name'', ''email'', ''company_domain''], rows = [?r1, ?r2]\<rparr>"
  have 1: "enrich_leads ?df1 sample_enrich_draws = Inl (KeyError ''company_domain'')"
    using enrich_aborts_batch [of ?df1 sample_enrich_draws] by simp
  have "\<exists>f. absent_column (columns ?df2) = Some f
            \<and> f \<in> set [''name'', ''email'', ''company_domain''] \<and> f \<notin> set (columns ?df2)
            \<and> enrich_leads ?df2 sample_enrich_draws = Inl (KeyError f)"
    using enrich_aborts_batch [of ?df2 sample_enrich_draws] by simp
  then have 2: "enrich_leads ?df2 sample_enrich_draws = Inl (KeyError ''name'')"
    by (auto simp: absent_column_Some)
  have g: "\<forall>r\<in>set [?r1]. text_row r"
    using sample_text_rows(1) by simp
  have 3: "enrich_leads ?df3 sample_enrich_draws = Inl (AttributeError ''lower'')"
    using enrich_aborts_batch [of ?df3 sample_enrich_draws "[?r1]" ?r2 "[]"] g sample_text_rows(3)
    by simp
  from 1 2 3 show ?thesis by simp
qed


end
